theory Spec2Isabelle
  imports Main "HOL-Library.Signed_Division" "HOL-Library.Log_Nat"
begin

section \<open>Identifiers, instants and runtime panics\<close>

text \<open>
  A \<open>uuid.UUID\<close> is an opaque identifier, a \<open>*Client\<close> is the address of a Client
  object in the heap, and a \<open>time.Time\<close> is an instant counted in nanoseconds.
  The Go runtime panics that the modelled code can raise are values of \<open>panic\<close>.
\<close>

type_synonym uuid = nat
type_synonym cref = nat
type_synonym instant = int

datatype panic = CloseOfClosedChannel | SendOnClosedChannel | MakesliceCapOutOfRange

section \<open>Channels\<close>

text \<open>
  A buffered Go channel: the values waiting in it, its capacity and whether it has
  been closed. \<open>close(ch)\<close> on a closed channel panics. A send inside
  \<open>select { case ch <- v: ... default: ... }\<close> panics on a closed channel, succeeds when
  the buffer has room and takes the \<open>default\<close> branch when it is full (the result says
  which branch ran).
\<close>

record 'a chan =
  buf :: "'a list"
  cap :: nat
  is_closed :: bool

definition make_chan :: "nat \<Rightarrow> 'a chan" where
  "make_chan n = \<lparr>buf = [], cap = n, is_closed = False\<rparr>"

definition chan_close :: "'a chan \<Rightarrow> panic + 'a chan" where
  "chan_close ch = (if is_closed ch then Inl CloseOfClosedChannel
                    else Inr (ch\<lparr>is_closed := True\<rparr>))"

definition chan_try_send :: "'a chan \<Rightarrow> 'a \<Rightarrow> panic + (bool \<times> 'a chan)" where
  "chan_try_send ch v =
     (if is_closed ch then Inl SendOnClosedChannel
      else if length (buf ch) < cap ch then Inr (True, ch\<lparr>buf := buf ch @ [v]\<rparr>)
      else Inr (False, ch))"

section \<open>internal/websocket/messages.go\<close>

record WebSocketMessage =
  Type :: string
  Payload :: string

record SessionReadyPayload =
  OtherPartyName :: string
  Role :: string

record RTCOfferPayload =
  SDP :: string

record RTCAnswerPayload =
  SDP :: string

record ICECandidatePayload =
  Candidate :: string
  SDPMid :: "string option"
  SDPMLineIndex :: "int option"

datatype buffer_error = ErrMessageBufferFull

record MessageBuffer =
  messages :: "WebSocketMessage list"
  maxSize :: int

text \<open>\<open>make([]WebSocketMessage, 0, maxSize)\<close> panics when \<open>maxSize\<close> is negative.\<close>

definition NewMessageBuffer :: "int \<Rightarrow> panic + MessageBuffer" where
  "NewMessageBuffer n =
     (if n < 0 then Inl MakesliceCapOutOfRange
      else Inr \<lparr>messages = [], maxSize = n\<rparr>)"

definition Add :: "MessageBuffer \<Rightarrow> WebSocketMessage \<Rightarrow> buffer_error option \<times> MessageBuffer" where
  "Add mb msg =
     (if int (length (messages mb)) \<ge> maxSize mb then (Some ErrMessageBufferFull, mb)
      else (None, mb\<lparr>messages := messages mb @ [msg]\<rparr>))"

definition Flush :: "MessageBuffer \<Rightarrow> panic + (WebSocketMessage list \<times> MessageBuffer)" where
  "Flush mb =
     (if maxSize mb < 0 then Inl MakesliceCapOutOfRange
      else Inr (messages mb, mb\<lparr>messages := []\<rparr>))"

definition IsEmpty :: "MessageBuffer \<Rightarrow> bool" where
  "IsEmpty mb = (length (messages mb) = 0)"

definition Size :: "MessageBuffer \<Rightarrow> int" where
  "Size mb = int (length (messages mb))"

text \<open>A caller that adds a sequence of messages one by one, ignoring the failures.\<close>

fun add_each :: "MessageBuffer \<Rightarrow> WebSocketMessage list \<Rightarrow> MessageBuffer" where
  "add_each mb [] = mb"
| "add_each mb (m # ms) = add_each (snd (Add mb m)) ms"

text \<open>The messages of a sequence whose \<open>Add\<close> returned no error, in order.\<close>

fun accepted :: "MessageBuffer \<Rightarrow> WebSocketMessage list \<Rightarrow> WebSocketMessage list" where
  "accepted mb [] = []"
| "accepted mb (m # ms) =
     (case Add mb m of
        (None, mb') \<Rightarrow> m # accepted mb' ms
      | (Some e, mb') \<Rightarrow> accepted mb' ms)"

record ConnectionState =
  PeerConnectionReady :: bool
  SessionReadySent :: bool
  MessageBufferActive :: bool
  messageBuffer :: MessageBuffer

text \<open>\<open>NewMessageBuffer(100)\<close> cannot panic; its result is written out.\<close>

definition NewConnectionState :: ConnectionState where
  "NewConnectionState =
     \<lparr>PeerConnectionReady = False, SessionReadySent = False, MessageBufferActive = True,
      messageBuffer = \<lparr>messages = [], maxSize = 100\<rparr>\<rparr>"

definition IsPeerConnectionReady :: "ConnectionState \<Rightarrow> bool" where
  "IsPeerConnectionReady cs = PeerConnectionReady cs"

definition SetPeerConnectionReady :: "ConnectionState \<Rightarrow> bool \<Rightarrow> ConnectionState" where
  "SetPeerConnectionReady cs ready =
     (let cs1 = cs\<lparr>PeerConnectionReady := ready\<rparr>
      in if ready then cs1\<lparr>MessageBufferActive := False\<rparr> else cs1)"

definition HasSessionReadySent :: "ConnectionState \<Rightarrow> bool" where
  "HasSessionReadySent cs = SessionReadySent cs"

definition SetSessionReadySent :: "ConnectionState \<Rightarrow> bool \<Rightarrow> ConnectionState" where
  "SetSessionReadySent cs sent = cs\<lparr>SessionReadySent := sent\<rparr>"

definition BufferMessage :: "ConnectionState \<Rightarrow> WebSocketMessage \<Rightarrow> bool \<times> ConnectionState" where
  "BufferMessage cs msg =
     (if \<not> MessageBufferActive cs then (False, cs)
      else case Add (messageBuffer cs) msg of
             (err, mb) \<Rightarrow> (err = None, cs\<lparr>messageBuffer := mb\<rparr>))"

definition FlushBuffer :: "ConnectionState \<Rightarrow> panic + (WebSocketMessage list \<times> ConnectionState)" where
  "FlushBuffer cs =
     (case Flush (messageBuffer cs) of
        Inl p \<Rightarrow> Inl p
      | Inr (ms, mb) \<Rightarrow> Inr (ms, cs\<lparr>messageBuffer := mb\<rparr>))"

section \<open>The websocket package: Client, Session and Hub\<close>

text \<open>
  What the handlers put on a Client's \<open>Send\<close> channel is a
  \<open>map[string]interface{}{"type": ..., "payload": ...}\<close>; the payload is one of the
  payload structs, the booking identifier of \<open>other_party_left\<close>, or the empty map.
\<close>

datatype body =
    SessionReadyBody SessionReadyPayload
  | OfferBody RTCOfferPayload
  | AnswerBody RTCAnswerPayload
  | ICEBody ICECandidatePayload
  | BookingBody uuid
  | EmptyBody

record envelope =
  mtype :: string
  mpayload :: body

text \<open>
  The transport connection is reduced to whether it has been closed
  (\<open>Conn.Close()\<close> may be called any number of times). \<open>Done\<close> is a channel that is
  only ever closed. The \<open>Hub\<close> back pointer of a Client is left out: there is one Hub.
\<close>

record Client =
  ID :: uuid
  BookingID :: uuid
  Role :: string
  UserID :: uuid
  MentorID :: uuid
  Username :: string
  Conn_closed :: bool
  Send :: "envelope chan"
  Done :: "unit chan"
  ConnectionState :: ConnectionState

record Session =
  BookingID :: uuid
  Mentor :: "cref option"
  User :: "cref option"
  StartTime :: instant
  MaxDuration :: int
  Done :: "unit chan"

text \<open>The heap of Client objects, and the Hub's map from booking to Session.\<close>

type_synonym heap = "cref \<Rightarrow> Client"
type_synonym registry = "uuid \<rightharpoonup> Session"

definition NewHub :: registry where
  "NewHub = Map.empty"

definition NewSession :: "uuid \<Rightarrow> int \<Rightarrow> instant \<Rightarrow> Session" where
  "NewSession bookingID maxDuration now =
     \<lparr>Session.BookingID = bookingID, Mentor = None, User = None, StartTime = now,
      MaxDuration = maxDuration, Session.Done = make_chan 0\<rparr>"

text \<open>\<open>Client.Close\<close>: \<open>close(c.Send); c.Conn.Close(); close(c.Done)\<close>.\<close>

definition Client_Close :: "cref \<Rightarrow> heap \<Rightarrow> panic + heap" where
  "Client_Close c h =
     (case chan_close (Send (h c)) of
        Inl p \<Rightarrow> Inl p
      | Inr s \<Rightarrow>
          (case chan_close (Client.Done (h c)) of
             Inl p \<Rightarrow> Inl p
           | Inr d \<Rightarrow> Inr (h(c := (h c)\<lparr>Conn_closed := True, Send := s, Client.Done := d\<rparr>))))"

definition IsConnected :: "cref \<Rightarrow> heap \<Rightarrow> bool" where
  "IsConnected c h = (\<not> is_closed (Client.Done (h c)))"

text \<open>
  \<open>if slot != nil && slot.ID != client.ID { slot.Close() }\<close>, the test both branches
  of \<open>AddClient\<close> make on their slot.
\<close>

definition close_duplicate :: "cref option \<Rightarrow> cref \<Rightarrow> heap \<Rightarrow> panic + heap" where
  "close_duplicate slot client h =
     (case slot of
        None \<Rightarrow> Inr h
      | Some old \<Rightarrow> if ID (h old) \<noteq> ID (h client) then Client_Close old h else Inr h)"

definition AddClient ::
  "uuid \<Rightarrow> cref \<Rightarrow> instant \<Rightarrow> registry \<Rightarrow> heap \<Rightarrow> panic + (Session \<times> registry \<times> heap)" where
  "AddClient bookingID client now reg h =
     (let session = (case reg bookingID of
                       Some s \<Rightarrow> s
                     | None \<Rightarrow> NewSession bookingID (30 * 60) now)
      in if Client.Role (h client) = ''mentor'' then
           (case close_duplicate (Mentor session) client h of
              Inl p \<Rightarrow> Inl p
            | Inr h' \<Rightarrow>
                (let s' = session\<lparr>Mentor := Some client\<rparr>
                 in Inr (s', reg(bookingID \<mapsto> s'), h')))
         else
           (case close_duplicate (User session) client h of
              Inl p \<Rightarrow> Inl p
            | Inr h' \<Rightarrow>
                (let s' = session\<lparr>User := Some client\<rparr>
                 in Inr (s', reg(bookingID \<mapsto> s'), h'))))"

definition GetSession :: "registry \<Rightarrow> uuid \<Rightarrow> Session option" where
  "GetSession reg bookingID = reg bookingID"

definition RemoveClient :: "uuid \<Rightarrow> string \<Rightarrow> registry \<Rightarrow> registry" where
  "RemoveClient bookingID role reg =
     (case reg bookingID of
        None \<Rightarrow> reg
      | Some session \<Rightarrow>
          (let s' = (if role = ''mentor'' then session\<lparr>Mentor := None\<rparr>
                     else session\<lparr>User := None\<rparr>)
           in if Mentor s' = None \<and> User s' = None then reg(bookingID := None)
              else reg(bookingID \<mapsto> s')))"

definition BothJoined :: "Session \<Rightarrow> bool" where
  "BothJoined s = (Mentor s \<noteq> None \<and> User s \<noteq> None)"

definition GetOtherClient :: "Session \<Rightarrow> string \<Rightarrow> cref option" where
  "GetOtherClient s role = (if role = ''mentor'' then User s else Mentor s)"

text \<open>\<open>select { case c.Send <- message: default: }\<close> on the Client at address \<open>c\<close>.\<close>

definition try_send :: "cref \<Rightarrow> envelope \<Rightarrow> heap \<Rightarrow> panic + (bool \<times> heap)" where
  "try_send c message h =
     (case chan_try_send (Send (h c)) message of
        Inl p \<Rightarrow> Inl p
      | Inr (ok, ch) \<Rightarrow> Inr (ok, h(c := (h c)\<lparr>Send := ch\<rparr>)))"

definition send_if_present :: "cref option \<Rightarrow> envelope \<Rightarrow> heap \<Rightarrow> panic + heap" where
  "send_if_present slot message h =
     (case slot of
        None \<Rightarrow> Inr h
      | Some c \<Rightarrow> (case try_send c message h of Inl p \<Rightarrow> Inl p | Inr (ok, h') \<Rightarrow> Inr h'))"

definition SendToRole :: "Session \<Rightarrow> string \<Rightarrow> envelope \<Rightarrow> heap \<Rightarrow> panic + heap" where
  "SendToRole s role message h =
     send_if_present (if role = ''mentor'' then Mentor s else User s) message h"

definition Broadcast :: "Session \<Rightarrow> envelope \<Rightarrow> heap \<Rightarrow> panic + heap" where
  "Broadcast s message h =
     (case send_if_present (Mentor s) message h of
        Inl p \<Rightarrow> Inl p
      | Inr h' \<Rightarrow> send_if_present (User s) message h')"

definition close_if_present :: "cref option \<Rightarrow> heap \<Rightarrow> panic + heap" where
  "close_if_present slot h = (case slot of None \<Rightarrow> Inr h | Some c \<Rightarrow> Client_Close c h)"

definition Session_Close :: "Session \<Rightarrow> heap \<Rightarrow> panic + (Session \<times> heap)" where
  "Session_Close s h =
     (case chan_close (Session.Done s) of
        Inl p \<Rightarrow> Inl p
      | Inr d \<Rightarrow>
          (case close_if_present (Mentor s) h of
             Inl p \<Rightarrow> Inl p
           | Inr h1 \<Rightarrow>
               (case close_if_present (User s) h1 of
                  Inl p \<Rightarrow> Inl p
                | Inr h2 \<Rightarrow> Inr (s\<lparr>Session.Done := d\<rparr>, h2))))"

section \<open>internal/repositories/video_session_repository.go\<close>

text \<open>
  The \<open>video_sessions\<close> table, one row per booking (every query selects by
  \<open>booking_id\<close>). SQL \<open>NOW()\<close> is the argument \<open>dbnow\<close>. A database that cannot
  be reached is not modelled.
\<close>

datatype VideoSessionStatus =
  VideoSessionStatusWaiting | VideoSessionStatusActive | VideoSessionStatusCompleted

record VideoSession =
  ID :: uuid
  BookingID :: uuid
  MentorID :: uuid
  UserID :: uuid
  SessionStartedAt :: "instant option"
  SessionEndedAt :: "instant option"
  MentorJoinedAt :: "instant option"
  UserJoinedAt :: "instant option"
  MentorLeftAt :: "instant option"
  UserLeftAt :: "instant option"
  DurationSeconds :: int
  Status :: VideoSessionStatus
  CreatedAt :: instant
  UpdatedAt :: instant

type_synonym table = "uuid \<rightharpoonup> VideoSession"

datatype repo_error = VideoSessionNotFound

definition GetByBookingID :: "table \<Rightarrow> uuid \<Rightarrow> repo_error + VideoSession" where
  "GetByBookingID tbl bookingID =
     (case tbl bookingID of None \<Rightarrow> Inl VideoSessionNotFound | Some v \<Rightarrow> Inr v)"

text \<open>\<open>UPDATE video_sessions SET ... WHERE booking_id = $n\<close>.\<close>

definition update_row :: "table \<Rightarrow> uuid \<Rightarrow> (VideoSession \<Rightarrow> VideoSession) \<Rightarrow> table" where
  "update_row tbl bookingID f =
     (case tbl bookingID of None \<Rightarrow> tbl | Some v \<Rightarrow> tbl(bookingID \<mapsto> f v))"

definition RecordMentorJoined :: "table \<Rightarrow> uuid \<Rightarrow> instant \<Rightarrow> table" where
  "RecordMentorJoined tbl bookingID dbnow =
     update_row tbl bookingID (\<lambda>v. v\<lparr>MentorJoinedAt := Some dbnow, UpdatedAt := dbnow\<rparr>)"

definition RecordUserJoined :: "table \<Rightarrow> uuid \<Rightarrow> instant \<Rightarrow> table" where
  "RecordUserJoined tbl bookingID dbnow =
     update_row tbl bookingID (\<lambda>v. v\<lparr>UserJoinedAt := Some dbnow, UpdatedAt := dbnow\<rparr>)"

definition RecordMentorLeft :: "table \<Rightarrow> uuid \<Rightarrow> instant \<Rightarrow> table" where
  "RecordMentorLeft tbl bookingID dbnow =
     update_row tbl bookingID (\<lambda>v. v\<lparr>MentorLeftAt := Some dbnow, UpdatedAt := dbnow\<rparr>)"

definition RecordUserLeft :: "table \<Rightarrow> uuid \<Rightarrow> instant \<Rightarrow> table" where
  "RecordUserLeft tbl bookingID dbnow =
     update_row tbl bookingID (\<lambda>v. v\<lparr>UserLeftAt := Some dbnow, UpdatedAt := dbnow\<rparr>)"

text \<open>The query of \<open>VideoSessionRepository.EndSession\<close> has no placeholder for \<open>reason\<close>.\<close>

definition VideoSessionRepository_EndSession ::
  "table \<Rightarrow> uuid \<Rightarrow> int \<Rightarrow> string \<Rightarrow> instant \<Rightarrow> table" where
  "VideoSessionRepository_EndSession tbl bookingID durationSeconds reason dbnow =
     update_row tbl bookingID
       (\<lambda>v. v\<lparr>SessionEndedAt := Some dbnow, DurationSeconds := durationSeconds,
              Status := VideoSessionStatusCompleted, UpdatedAt := dbnow\<rparr>)"

definition MarkActive :: "table \<Rightarrow> uuid \<Rightarrow> instant \<Rightarrow> table" where
  "MarkActive tbl bookingID dbnow =
     (case tbl bookingID of
        None \<Rightarrow> tbl
      | Some v \<Rightarrow>
          if Status v = VideoSessionStatusWaiting
          then tbl(bookingID \<mapsto> v\<lparr>SessionStartedAt := Some dbnow,
                                   Status := VideoSessionStatusActive, UpdatedAt := dbnow\<rparr>)
          else tbl)"

section \<open>The video session service\<close>

text \<open>
  The duration is \<open>int(time.Since(*session.SessionStartedAt).Seconds())\<close>, which goes
  through \<open>float64\<close>. A \<open>float64\<close> value is the rational it denotes, and
  \<open>float64 q\<close> is the rational \<open>q\<close> rounded to the nearest value with a mantissa of
  53 bits, ties to the even mantissa (overflow and subnormal values do not occur here:
  the values lie between \<open>10^-9\<close> and \<open>2^34\<close>).
\<close>

definition pow2 :: "int \<Rightarrow> rat" where
  "pow2 e = (if 0 \<le> e then 2 ^ nat e else 1 / 2 ^ nat (- e))"

definition round_half_even :: "rat \<Rightarrow> int" where
  "round_half_even t =
     (let n = \<lfloor>t\<rfloor>; r = t - of_int n
      in if r < 1 / 2 then n else if 1 / 2 < r then n + 1 else if even n then n else n + 1)"

text \<open>For \<open>q > 0\<close>, the exponent \<open>e\<close> with \<open>2^e \<le> q < 2^(e+1)\<close>.\<close>

definition binary_exponent :: "rat \<Rightarrow> int" where
  "binary_exponent q =
     (case quotient_of q of
        (a, b) \<Rightarrow> (let e = bitlen a - bitlen b in if pow2 e \<le> q then e else e - 1))"

definition float64 :: "rat \<Rightarrow> rat" where
  "float64 q =
     (if q = 0 then 0
      else (let m = \<bar>q\<bar>; e = binary_exponent m;
                r = of_int (round_half_even (m * pow2 (52 - e))) * pow2 (e - 52)
            in if q < 0 then - r else r))"

text \<open>The conversion \<open>int(f)\<close> of a \<open>float64\<close> discards the fraction.\<close>

definition int_of_float64 :: "rat \<Rightarrow> int" where
  "int_of_float64 f = (if 0 \<le> f then \<lfloor>f\<rfloor> else \<lceil>f\<rceil>)"

text \<open>
  \<open>time.Time.Sub\<close> gives the difference of two instants as a \<open>Duration\<close>, an
  \<open>int64\<close> of nanoseconds, and returns the largest or smallest \<open>Duration\<close> when the
  difference does not fit. \<open>time.Since(t)\<close> is \<open>time.Now().Sub(t)\<close> (an instant read
  from the database has no monotonic clock reading).
\<close>

definition Sub :: "instant \<Rightarrow> instant \<Rightarrow> int" where
  "Sub t u = max (- (2 ^ 63)) (min (2 ^ 63 - 1) (t - u))"

text \<open>
  \<open>Duration.Seconds\<close>: \<open>sec := d / Second; nsec := d % Second;
  return float64(sec) + float64(nsec)/1e9\<close>, with Go's division and remainder
  (rounded towards zero, the remainder with the sign of \<open>d\<close>).
\<close>

definition Seconds :: "int \<Rightarrow> rat" where
  "Seconds d =
     float64 (float64 (of_int (d sdiv 1000000000))
              + float64 (float64 (of_int (d smod 1000000000)) / 1000000000))"

definition whole_seconds :: "int \<Rightarrow> int" where
  "whole_seconds d = int_of_float64 (Seconds d)"

definition EndSession ::
  "table \<Rightarrow> uuid \<Rightarrow> string \<Rightarrow> instant \<Rightarrow> instant \<Rightarrow> repo_error option \<times> table" where
  "EndSession tbl bookingID reason now dbnow =
     (case GetByBookingID tbl bookingID of
        Inl err \<Rightarrow> (Some err, tbl)
      | Inr session \<Rightarrow>
          (let duration =
                 (case SessionStartedAt session of
                    Some started \<Rightarrow>
                      if SessionEndedAt session = None then whole_seconds (Sub now started)
                      else 0
                  | None \<Rightarrow> 0)
           in (None, VideoSessionRepository_EndSession tbl bookingID duration reason dbnow)))"

text \<open>The state the service and the handlers work on: Client heap, Hub and database.\<close>

record world =
  clients :: heap
  sessions :: registry
  video_sessions :: table

definition HandleClientJoined :: "cref \<Rightarrow> instant \<Rightarrow> world \<Rightarrow> world" where
  "HandleClientJoined client dbnow w =
     (let c = clients w client
      in if Client.Role c = ''mentor''
         then w\<lparr>video_sessions := RecordMentorJoined (video_sessions w) (Client.BookingID c) dbnow\<rparr>
         else w\<lparr>video_sessions := RecordUserJoined (video_sessions w) (Client.BookingID c) dbnow\<rparr>)"

definition other_party_left :: "uuid \<Rightarrow> envelope" where
  "other_party_left bookingID = \<lparr>mtype = ''other_party_left'', mpayload = BookingBody bookingID\<rparr>"

definition HandleClientLeft ::
  "uuid \<Rightarrow> string \<Rightarrow> instant \<Rightarrow> instant \<Rightarrow> world \<Rightarrow> panic + world" where
  "HandleClientLeft bookingID role now dbnow w =
     (let w1 = (if role = ''mentor''
                then w\<lparr>video_sessions := RecordMentorLeft (video_sessions w) bookingID dbnow\<rparr>
                else w\<lparr>video_sessions := RecordUserLeft (video_sessions w) bookingID dbnow\<rparr>)
      in case GetSession (sessions w1) bookingID of
           None \<Rightarrow> Inr (w1\<lparr>sessions := RemoveClient bookingID role (sessions w1)\<rparr>)
         | Some session \<Rightarrow>
             (case (case GetOtherClient session role of
                      None \<Rightarrow> Inr (clients w1)
                    | Some otherParty \<Rightarrow>
                        (case try_send otherParty (other_party_left bookingID) (clients w1) of
                           Inl p \<Rightarrow> Inl p
                         | Inr (ok, h1) \<Rightarrow> Client_Close otherParty h1)) of
                Inl p \<Rightarrow> Inl p
              | Inr h2 \<Rightarrow>
                  Inr (w1\<lparr>clients := h2,
                          video_sessions :=
                            snd (EndSession (video_sessions w1) bookingID ''party_left'' now dbnow),
                          sessions := RemoveClient bookingID role (sessions w1)\<rparr>)))"

text \<open>
  \<open>ForwardMessage\<close> returns the error "session not found" (here \<open>None\<close>) when the
  Hub has no Session for the booking.
\<close>

definition ForwardMessage ::
  "uuid \<Rightarrow> string \<Rightarrow> string \<Rightarrow> body \<Rightarrow> world \<Rightarrow> panic + world option" where
  "ForwardMessage bookingID senderRole messageType payload w =
     (case GetSession (sessions w) bookingID of
        None \<Rightarrow> Inr None
      | Some session \<Rightarrow>
          (case SendToRole session (if senderRole = ''user'' then ''mentor'' else ''user'')
                  \<lparr>mtype = messageType, mpayload = payload\<rparr> (clients w) of
             Inl p \<Rightarrow> Inl p
           | Inr h \<Rightarrow> Inr (Some (w\<lparr>clients := h\<rparr>))))"

section \<open>internal/handlers/websocket_handler.go\<close>

text \<open>The authenticated context the middleware leaves for the handler.\<close>

record WebSocketAuthContext =
  UserID :: uuid
  Username :: string
  BookingID :: uuid
  Role :: string
  MentorID :: uuid

definition session_ready :: "string \<Rightarrow> string \<Rightarrow> envelope" where
  "session_ready otherPartyName role =
     \<lparr>mtype = ''session_ready'',
      mpayload = SessionReadyBody \<lparr>OtherPartyName = otherPartyName,
                                   SessionReadyPayload.Role = role\<rparr>\<rparr>"

text \<open>
  One of the two blocks of \<open>sendSessionReady\<close>: unless the Client's flag is set
  (\<open>HasSessionReadySent\<close>), try to enqueue the notice, and set the flag when the send
  went through (\<open>send_ready\<close>). The handler holds no lock from the test of the flag to
  its setting: \<open>notify_ready\<close> is the block when no other handler runs in between.
\<close>

definition send_ready :: "cref \<Rightarrow> envelope \<Rightarrow> heap \<Rightarrow> panic + heap" where
  "send_ready c message h =
     (case try_send c message h of
        Inl p \<Rightarrow> Inl p
      | Inr (ok, h') \<Rightarrow>
          if ok then
            Inr (h'(c := (h' c)\<lparr>ConnectionState :=
                                 SetSessionReadySent (ConnectionState (h' c)) True\<rparr>))
          else Inr h')"

definition notify_ready :: "cref \<Rightarrow> envelope \<Rightarrow> heap \<Rightarrow> panic + heap" where
  "notify_ready c message h =
     (if \<not> HasSessionReadySent (ConnectionState (h c)) then send_ready c message h
      else Inr h)"

definition sendSessionReady ::
  "Session \<Rightarrow> cref \<Rightarrow> WebSocketAuthContext \<Rightarrow> heap \<Rightarrow> panic + heap" where
  "sendSessionReady session newClient auth h =
     (if \<not> BothJoined session then Inr h
      else case GetOtherClient session (WebSocketAuthContext.Role auth) of
             None \<Rightarrow> Inr h
           | Some otherClient \<Rightarrow>
               (let otherUsername = Client.Username (h otherClient)
                in case notify_ready newClient
                          (session_ready otherUsername (WebSocketAuthContext.Role auth)) h of
                     Inl p \<Rightarrow> Inl p
                   | Inr h1 \<Rightarrow>
                       notify_ready otherClient
                         (session_ready (WebSocketAuthContext.Username auth)
                            (Client.Role (h1 otherClient))) h1))"

text \<open>
  \<open>HandleWebSocket\<close>. \<open>auth\<close> is \<open>None\<close> when the request carries no authentication
  context, \<open>upgraded\<close> says whether the upgrade succeeded, \<open>newID\<close> is the result of
  \<open>uuid.New()\<close> and \<open>client\<close> the address of the Client object the handler allocates.
  The two pumps it starts run as steps of their own.
\<close>

definition HandleWebSocket ::
  "WebSocketAuthContext option \<Rightarrow> bool \<Rightarrow> uuid \<Rightarrow> cref \<Rightarrow> instant \<Rightarrow> instant \<Rightarrow> world
     \<Rightarrow> panic + world" where
  "HandleWebSocket auth upgraded newID client now dbnow w =
     (case auth of
        None \<Rightarrow> Inr w
      | Some a \<Rightarrow>
          if \<not> upgraded then Inr w
          else
            (let c = \<lparr>Client.ID = newID,
                      Client.BookingID = WebSocketAuthContext.BookingID a,
                      Client.Role = WebSocketAuthContext.Role a,
                      Client.UserID = WebSocketAuthContext.UserID a,
                      Client.MentorID = WebSocketAuthContext.MentorID a,
                      Client.Username = WebSocketAuthContext.Username a,
                      Conn_closed = False,
                      Send = make_chan 256,
                      Client.Done = make_chan 0,
                      ConnectionState = NewConnectionState\<rparr>;
                 h0 = (clients w)(client := c)
             in case AddClient (WebSocketAuthContext.BookingID a) client now (sessions w) h0 of
                  Inl p \<Rightarrow> Inl p
                | Inr (session, reg, h1) \<Rightarrow>
                    (let w1 = HandleClientJoined client dbnow (w\<lparr>clients := h1, sessions := reg\<rparr>)
                     in case sendSessionReady session client a (clients w1) of
                          Inl p \<Rightarrow> Inl p
                        | Inr h2 \<Rightarrow> Inr (w1\<lparr>clients := h2\<rparr>))))"

text \<open>
  \<open>json.Unmarshal\<close> of a raw payload into each payload struct is a parameter of the
  handlers (\<open>None\<close> is its error).
\<close>

record decoders =
  unmarshal_offer :: "string \<Rightarrow> RTCOfferPayload option"
  unmarshal_answer :: "string \<Rightarrow> RTCAnswerPayload option"
  unmarshal_ice :: "string \<Rightarrow> ICECandidatePayload option"

text \<open>\<open>otherRole := "user"; if client.Role == "user" { otherRole = "mentor" }\<close>.\<close>

definition otherRole :: "string \<Rightarrow> string" where
  "otherRole role = (if role = ''user'' then ''mentor'' else ''user'')"

definition handleOfferMessage ::
  "decoders \<Rightarrow> cref \<Rightarrow> Session \<Rightarrow> string \<Rightarrow> heap \<Rightarrow> panic + heap" where
  "handleOfferMessage dec client session payload h =
     (case unmarshal_offer dec payload of
        None \<Rightarrow> Inr h
      | Some offerPayload \<Rightarrow>
          if RTCOfferPayload.SDP offerPayload = '''' then Inr h
          else SendToRole session (otherRole (Client.Role (h client)))
                 \<lparr>mtype = ''offer'', mpayload = OfferBody offerPayload\<rparr> h)"

definition handleAnswerMessage ::
  "decoders \<Rightarrow> cref \<Rightarrow> Session \<Rightarrow> string \<Rightarrow> heap \<Rightarrow> panic + heap" where
  "handleAnswerMessage dec client session payload h =
     (case unmarshal_answer dec payload of
        None \<Rightarrow> Inr h
      | Some answerPayload \<Rightarrow>
          if RTCAnswerPayload.SDP answerPayload = '''' then Inr h
          else SendToRole session (otherRole (Client.Role (h client)))
                 \<lparr>mtype = ''answer'', mpayload = AnswerBody answerPayload\<rparr> h)"

definition handleICECandidateMessage ::
  "decoders \<Rightarrow> cref \<Rightarrow> Session \<Rightarrow> string \<Rightarrow> heap \<Rightarrow> panic + heap" where
  "handleICECandidateMessage dec client session payload h =
     (case unmarshal_ice dec payload of
        None \<Rightarrow> Inr h
      | Some icePayload \<Rightarrow>
          if Candidate icePayload = '''' then Inr h
          else SendToRole session (otherRole (Client.Role (h client)))
                 \<lparr>mtype = ''ice_candidate'', mpayload = ICEBody icePayload\<rparr> h)"

text \<open>
  One turn of the loop of \<open>readPump\<close>. What \<open>ReadJSON\<close> and the parse of the envelope
  gave is the input; the result says whether the loop goes on or the pump returns
  (and its deferred cleanup runs).
\<close>

datatype inbound = ReadFailed | EnvelopeUnparsed | Frame WebSocketMessage

datatype loop = Continue | Return

definition readPump_turn ::
  "decoders \<Rightarrow> cref \<Rightarrow> Session \<Rightarrow> inbound \<Rightarrow> heap \<Rightarrow> panic + (loop \<times> heap)" where
  "readPump_turn dec client session input h =
     (case input of
        ReadFailed \<Rightarrow> Inr (Return, h)
      | EnvelopeUnparsed \<Rightarrow> Inr (Continue, h)
      | Frame msg \<Rightarrow>
          if Type msg = ''offer'' then
            (case handleOfferMessage dec client session (Payload msg) h of
               Inl p \<Rightarrow> Inl p | Inr h' \<Rightarrow> Inr (Continue, h'))
          else if Type msg = ''answer'' then
            (case handleAnswerMessage dec client session (Payload msg) h of
               Inl p \<Rightarrow> Inl p | Inr h' \<Rightarrow> Inr (Continue, h'))
          else if Type msg = ''ice_candidate'' then
            (case handleICECandidateMessage dec client session (Payload msg) h of
               Inl p \<Rightarrow> Inl p | Inr h' \<Rightarrow> Inr (Continue, h'))
          else if Type msg = ''leave_call'' then Inr (Return, h)
          else if Type msg = ''ping'' then
            (case try_send client \<lparr>mtype = ''pong'', mpayload = EmptyBody\<rparr> h of
               Inl p \<Rightarrow> Inl p | Inr (ok, h') \<Rightarrow> Inr (Continue, h'))
          else Inr (Continue, h))"

text \<open>The deferred cleanup of \<open>readPump\<close>.\<close>

definition readPump_cleanup :: "cref \<Rightarrow> instant \<Rightarrow> instant \<Rightarrow> world \<Rightarrow> panic + world" where
  "readPump_cleanup client now dbnow w =
     (let c = clients w client
      in case HandleClientLeft (Client.BookingID c) (Client.Role c) now dbnow w of
           Inl p \<Rightarrow> Inl p
         | Inr w1 \<Rightarrow>
             Inr (w1\<lparr>sessions := RemoveClient (Client.BookingID c) (Client.Role c) (sessions w1),
                     clients := (clients w1)(client := (clients w1 client)\<lparr>Conn_closed := True\<rparr>)\<rparr>))"

section \<open>Sequences of operations\<close>

text \<open>Calls of \<open>Hub.AddClient\<close> and \<open>Hub.RemoveClient\<close>, one after the other.\<close>

datatype hub_op = Add_op uuid cref | Remove_op uuid string

fun hub_run :: "instant \<Rightarrow> hub_op list \<Rightarrow> registry \<Rightarrow> heap \<Rightarrow> panic + (registry \<times> heap)" where
  "hub_run now [] reg h = Inr (reg, h)"
| "hub_run now (Add_op bookingID client # ops) reg h =
     (case AddClient bookingID client now reg h of
        Inl p \<Rightarrow> Inl p
      | Inr (s, reg', h') \<Rightarrow> hub_run now ops reg' h')"
| "hub_run now (Remove_op bookingID role # ops) reg h =
     hub_run now ops (RemoveClient bookingID role reg) h"

text \<open>
  Serial runs. The server starts one goroutine for every request and two pumps for
  every connection, and they interleave. A run is one of its executions, in which each
  step is carried out to its end before the next starts: a connection is accepted by
  \<open>HandleWebSocket\<close>; the \<open>readPump\<close> of a Client returns and its cleanup runs; the
  \<open>readPump\<close> of a Client takes one turn on what it read (and cleans up when the turn
  ends the loop). The Session that a pump holds is given with the step, so that a pump
  whose Session has left the registry is covered. A run stops at the first panic.
  Every run is an execution of the server, so what a run shows can happen; the
  executions in which handlers overlap are not runs, and a statement about all runs
  is a statement about the serial executions only.
\<close>

datatype step =
    Connect WebSocketAuthContext uuid cref
  | Disconnect cref
  | Receive cref Session inbound

fun run :: "decoders \<Rightarrow> instant \<Rightarrow> step list \<Rightarrow> world \<Rightarrow> panic + world" where
  "run dec now [] w = Inr w"
| "run dec now (Connect a newID client # sts) w =
     (case HandleWebSocket (Some a) True newID client now now w of
        Inl p \<Rightarrow> Inl p
      | Inr w' \<Rightarrow> run dec now sts w')"
| "run dec now (Disconnect client # sts) w =
     (case readPump_cleanup client now now w of
        Inl p \<Rightarrow> Inl p
      | Inr w' \<Rightarrow> run dec now sts w')"
| "run dec now (Receive client session input # sts) w =
     (case readPump_turn dec client session input (clients w) of
        Inl p \<Rightarrow> Inl p
      | Inr (Continue, h) \<Rightarrow> run dec now sts (w\<lparr>clients := h\<rparr>)
      | Inr (Return, h) \<Rightarrow>
          (case readPump_cleanup client now now (w\<lparr>clients := h\<rparr>) of
             Inl p \<Rightarrow> Inl p
           | Inr w' \<Rightarrow> run dec now sts w'))"

section \<open>Properties\<close>

text \<open>
  The registry property: every Session in the registry is stored under its own booking
  identifier and has an occupied role slot.
\<close>

definition occupied :: "registry \<Rightarrow> bool" where
  "occupied reg =
     (\<forall>b s. reg b = Some s \<longrightarrow>
        Session.BookingID s = b \<and> (Mentor s \<noteq> None \<or> User s \<noteq> None))"

text \<open>A message at the end of a Client's outbound queue.\<close>

definition enqueue :: "cref \<Rightarrow> envelope \<Rightarrow> heap \<Rightarrow> heap" where
  "enqueue c m h = h(c := (h c)\<lparr>Send := (Send (h c))\<lparr>buf := buf (Send (h c)) @ [m]\<rparr>\<rparr>)"

text \<open>What \<open>Client.Close\<close> leaves of a Client that was open.\<close>

definition shut :: "Client \<Rightarrow> Client" where
  "shut c = c\<lparr>Conn_closed := True, Send := (Send c)\<lparr>is_closed := True\<rparr>,
             Client.Done := (Client.Done c)\<lparr>is_closed := True\<rparr>\<rparr>"

text \<open>
  What a successful \<open>session_ready\<close> notice leaves of a Client: the notice at the end
  of its queue and its flag set.
\<close>

definition notified :: "Client \<Rightarrow> envelope \<Rightarrow> Client" where
  "notified c m =
     c\<lparr>Send := (Send c)\<lparr>buf := buf (Send c) @ [m]\<rparr>,
       ConnectionState := (ConnectionState c)\<lparr>SessionReadySent := True\<rparr>\<rparr>"

text \<open>The \<open>session_ready\<close> notices in a Client's queue.\<close>

definition ready_count :: "Client \<Rightarrow> nat" where
  "ready_count c = length (filter (\<lambda>m. mtype m = ''session_ready'') (buf (Send c)))"

text \<open>The addresses at which the steps of a run allocate their Clients.\<close>

fun allocated :: "step list \<Rightarrow> cref set" where
  "allocated [] = {}"
| "allocated (Connect a newID client # sts) = insert client (allocated sts)"
| "allocated (Disconnect client # sts) = allocated sts"
| "allocated (Receive client session input # sts) = allocated sts"

section \<open>Example values\<close>

definition blank_client :: Client where
  "blank_client =
     \<lparr>Client.ID = 0, Client.BookingID = 0, Client.Role = '''', Client.UserID = 0,
      Client.MentorID = 0, Client.Username = '''', Conn_closed = False,
      Send = make_chan 256, Client.Done = make_chan 0,
      ConnectionState = NewConnectionState\<rparr>"

definition empty_world :: world where
  "empty_world = \<lparr>clients = (\<lambda>r. blank_client), sessions = NewHub, video_sessions = Map.empty\<rparr>"

definition alice :: WebSocketAuthContext where
  "alice = \<lparr>UserID = 100, Username = ''alice'', BookingID = 7, Role = ''mentor'', MentorID = 500\<rparr>"

definition bob :: WebSocketAuthContext where
  "bob = \<lparr>UserID = 200, Username = ''bob'', BookingID = 7, Role = ''user'', MentorID = 500\<rparr>"

definition plain_decoders :: decoders where
  "plain_decoders =
     \<lparr>unmarshal_offer = (\<lambda>s. Some \<lparr>RTCOfferPayload.SDP = s\<rparr>),
      unmarshal_answer = (\<lambda>s. Some \<lparr>RTCAnswerPayload.SDP = s\<rparr>),
      unmarshal_ice = (\<lambda>s. Some \<lparr>Candidate = s, SDPMid = None, SDPMLineIndex = None\<rparr>)\<rparr>"

definition ended_row :: VideoSession where
  "ended_row =
     \<lparr>ID = 1, BookingID = 7, MentorID = 500, UserID = 200,
      SessionStartedAt = Some 1000000000000, SessionEndedAt = Some 1600000000000,
      MentorJoinedAt = None, UserJoinedAt = None, MentorLeftAt = None, UserLeftAt = None,
      DurationSeconds = 600, Status = VideoSessionStatusCompleted,
      CreatedAt = 0, UpdatedAt = 1600000000000\<rparr>"

definition example_client :: "uuid \<Rightarrow> string \<Rightarrow> string \<Rightarrow> Client" where
  "example_client newID role name =
     blank_client\<lparr>Client.ID := newID, Client.BookingID := 7, Client.Role := role,
                  Client.Username := name\<rparr>"

definition example_heap :: heap where
  "example_heap =
     (\<lambda>r. blank_client)
       (0 := example_client 10 ''mentor'' ''alice'',
        1 := example_client 11 ''user'' ''bob'',
        2 := example_client 12 ''mentor'' ''alice'',
        3 := (example_client 13 ''user'' ''bob'')
               \<lparr>Send := \<lparr>buf = [\<lparr>mtype = ''pong'', mpayload = EmptyBody\<rparr>], cap = 1,
                         is_closed = False\<rparr>\<rparr>)"

definition example_session :: Session where
  "example_session =
     \<lparr>Session.BookingID = 7, Mentor = Some 0, User = Some 1, StartTime = 0,
      MaxDuration = 1800, Session.Done = make_chan 0\<rparr>"

definition example_registry :: registry where
  "example_registry = Map.empty(7 \<mapsto> example_session)"


definition both_joined :: world where
  "both_joined =
     projr (run plain_decoders 0 [Connect alice 10 0, Connect bob 11 1] empty_world)"

definition mentor_left :: world where
  "mentor_left = projr (run plain_decoders 0 [Disconnect 0] both_joined)"

section \<open>Lemmas about the operations\<close>

lemma add_each_maxSize: "maxSize (add_each mb ms) = maxSize mb"
  by (induction ms arbitrary: mb) (auto simp: Add_def)

lemma add_each_messages: "messages (add_each mb ms) = messages mb @ accepted mb ms"
  by (induction ms arbitrary: mb) (auto simp: Add_def)

lemma accepted_take:
  "accepted mb ms = take (nat (maxSize mb) - length (messages mb)) ms"
proof (induction ms arbitrary: mb)
  case Nil
  then show ?case by simp
next
  case (Cons m ms)
  show ?case
  proof (cases "maxSize mb \<le> int (length (messages mb))")
    case True
    then have "nat (maxSize mb) - length (messages mb) = 0" by simp
    with True Cons show ?thesis by (simp add: Add_def)
  next
    case False
    then have "nat (maxSize mb) - length (messages mb) = Suc (nat (maxSize mb) - Suc (length (messages mb)))"
      by linarith
    with False Cons show ?thesis by (simp add: Add_def)
  qed
qed

text \<open>
  Claim C6. \<open>Add\<close> on a buffer that holds \<open>maxSize\<close> messages or more returns
  \<open>ErrMessageBufferFull\<close> and leaves the buffer as it was. On a buffer as
  \<open>NewMessageBuffer\<close> makes it, after any sequence of \<open>Add\<close>s, \<open>Flush\<close> returns
  exactly the messages whose \<open>Add\<close> succeeded, in the order they were added (they are
  the first \<open>maxSize\<close> of the sequence), and leaves the empty buffer that
  \<open>NewMessageBuffer\<close> made, on which the same holds again.
\<close>
theorem MessageBuffer_Add_Flush:
  "(maxSize mb \<le> int (length (messages mb)) \<longrightarrow> Add mb msg = (Some ErrMessageBufferFull, mb)) \<and>
   (NewMessageBuffer n = Inr mb0 \<longrightarrow>
      Flush (add_each mb0 ms) = Inr (accepted mb0 ms, mb0) \<and>
      accepted mb0 ms = take (nat n) ms \<and>
      IsEmpty mb0)"
  by (auto simp: Add_def NewMessageBuffer_def Flush_def add_each_maxSize add_each_messages
      accepted_take IsEmpty_def split: if_splits)

lemma try_send_open:
  "\<not> is_closed (Send (h c)) \<Longrightarrow>
   try_send c m h = Inr (if length (buf (Send (h c))) < cap (Send (h c)) then (True, enqueue c m h) else (False, h))"
  by (simp add: try_send_def chan_try_send_def enqueue_def)

lemma try_send_closed:
  "is_closed (Send (h c)) \<Longrightarrow> try_send c m h = Inl SendOnClosedChannel"
  by (simp add: try_send_def chan_try_send_def)

lemma Client_Close_open:
  "\<not> is_closed (Send (h c)) \<Longrightarrow> \<not> is_closed (Client.Done (h c)) \<Longrightarrow>
   Client_Close c h = Inr (h(c := shut (h c)))"
  by (simp add: Client_Close_def chan_close_def shut_def)

text \<open>
  \<open>SendToRole\<close> on a slot that is empty or whose occupant has an open queue: when the
  slot is empty, or the queue is full, the heap is unchanged and nothing is reported;
  when the queue has room, the message is put at its end and nothing else changes.
\<close>
lemma SendToRole_open_queue:
  "(let slot = (if role = ''mentor'' then Mentor s else User s) in
    (slot = None \<longrightarrow> SendToRole s role m h = Inr h) \<and>
    (\<forall>c. slot = Some c \<and> \<not> is_closed (Send (h c)) \<and> cap (Send (h c)) \<le> length (buf (Send (h c)))
         \<longrightarrow> SendToRole s role m h = Inr h) \<and>
    (\<forall>c. slot = Some c \<and> \<not> is_closed (Send (h c)) \<and> length (buf (Send (h c))) < cap (Send (h c))
         \<longrightarrow> SendToRole s role m h = Inr (enqueue c m h)))"
  by (auto simp: SendToRole_def send_if_present_def try_send_open Let_def)

text \<open>
  \<open>AddClient\<close> on a slot that is empty or whose occupant is still open. It looks the
  Session up or makes a new one, and works on the slot of the new Client's role
  (\<open>Mentor\<close> for \<open>"mentor"\<close>, \<open>User\<close> otherwise). If the slot holds a Client with
  another \<open>ID\<close> whose channels are open, that Client is closed and the slot then holds
  the new Client. If the slot holds a Client with the same \<open>ID\<close>, or is empty, no
  Client is closed and the slot then holds the new Client.
\<close>
lemma AddClient_open_occupant:
  assumes "slot = (if Client.Role (h client) = ''mentor'' then Mentor s else User s)"
    and "s' = (if Client.Role (h client) = ''mentor'' then s\<lparr>Mentor := Some client\<rparr>
               else s\<lparr>User := Some client\<rparr>)"
    and "reg b = Some s \<or> (reg b = None \<and> s = NewSession b (30 * 60) now)"
  shows "(\<forall>old. slot = Some old \<and> Client.ID (h old) \<noteq> Client.ID (h client) \<and>
              \<not> is_closed (Send (h old)) \<and> \<not> is_closed (Client.Done (h old))
            \<longrightarrow> AddClient b client now reg h = Inr (s', reg(b \<mapsto> s'), h(old := shut (h old)))) \<and>
         (\<forall>old. slot = Some old \<and> Client.ID (h old) = Client.ID (h client)
            \<longrightarrow> AddClient b client now reg h = Inr (s', reg(b \<mapsto> s'), h)) \<and>
         (slot = None \<longrightarrow> AddClient b client now reg h = Inr (s', reg(b \<mapsto> s'), h))"
  using assms
  by (auto simp: AddClient_def close_duplicate_def Client_Close_open Let_def)

lemma AddClient_registry:
  assumes "AddClient b c now reg h = Inr (s, reg', h')"
  shows "reg' = reg(b \<mapsto> s) \<and> (Mentor s \<noteq> None \<or> User s \<noteq> None) \<and>
         Session.BookingID s = (case reg b of Some s0 \<Rightarrow> Session.BookingID s0 | None \<Rightarrow> b)"
  using assms
  by (auto simp: AddClient_def NewSession_def Let_def split: option.splits sum.splits if_splits)

lemma AddClient_occupied:
  assumes "occupied reg" and "AddClient b c now reg h = Inr (s, reg', h')"
  shows "occupied reg'"
proof -
  from AddClient_registry [OF assms(2)]
  have r: "reg' = reg(b \<mapsto> s)" and o: "Mentor s \<noteq> None \<or> User s \<noteq> None"
    and k: "Session.BookingID s = (case reg b of Some s0 \<Rightarrow> Session.BookingID s0 | None \<Rightarrow> b)"
    by simp_all
  have "Session.BookingID s = b"
    using k assms(1) by (cases "reg b") (simp_all add: occupied_def)
  with r o assms(1) show ?thesis
    by (simp add: occupied_def)
qed

lemma RemoveClient_occupied:
  "occupied reg \<Longrightarrow> occupied (RemoveClient b role reg)"
  by (auto simp: occupied_def RemoveClient_def Let_def split: option.splits if_splits)

lemma hub_run_occupied:
  "occupied reg \<Longrightarrow> hub_run now ops reg h = Inr (reg', h') \<Longrightarrow> occupied reg'"
proof (induction now ops reg h rule: hub_run.induct)
  case (1 now reg h)
  then show ?case by simp
next
  case (2 now bookingID client ops reg h)
  then show ?case
    by (auto split: sum.splits dest: AddClient_occupied)
next
  case (3 now bookingID role ops reg h)
  then show ?case by (simp add: RemoveClient_occupied)
qed

text \<open>
  Claim C10. After any sequence of \<open>AddClient\<close> and \<open>RemoveClient\<close> calls on a new
  Hub, every Session in the registry has an occupied role slot and is stored under its
  own booking identifier (the registry is a map, so a booking has at most one Session).
\<close>
theorem registry_occupancy:
  "hub_run now ops NewHub h = Inr (reg, h') \<Longrightarrow> occupied reg"
  by (rule hub_run_occupied [of NewHub]) (simp_all add: occupied_def NewHub_def)

text \<open>
  Claim C8. An \<open>offer\<close> or \<open>answer\<close> frame whose SDP is empty, and an
  \<open>ice_candidate\<close> frame whose candidate is empty, leaves every Client as it was (no
  message reaches any queue), and the loop of \<open>readPump\<close> goes on: the connection of
  the sender stays open.
\<close>
theorem empty_field_discarded:
  "(Type msg = ''offer'' \<and> unmarshal_offer dec (Payload msg) = Some p \<and> RTCOfferPayload.SDP p = ''''
      \<longrightarrow> readPump_turn dec client session (Frame msg) h = Inr (Continue, h)) \<and>
   (Type msg = ''answer'' \<and> unmarshal_answer dec (Payload msg) = Some q \<and> RTCAnswerPayload.SDP q = ''''
      \<longrightarrow> readPump_turn dec client session (Frame msg) h = Inr (Continue, h)) \<and>
   (Type msg = ''ice_candidate'' \<and> unmarshal_ice dec (Payload msg) = Some i \<and> Candidate i = ''''
      \<longrightarrow> readPump_turn dec client session (Frame msg) h = Inr (Continue, h))"
  by (simp add: readPump_turn_def handleOfferMessage_def handleAnswerMessage_def
      handleICECandidateMessage_def)



lemma notify_ready_effect:
  assumes "notify_ready c msg h = Inr h'"
  shows "(\<forall>x. x \<noteq> c \<longrightarrow> h' x = h x) \<and>
         (HasSessionReadySent (ConnectionState (h c)) \<longrightarrow> h' = h) \<and>
         (h' c = h c \<or> (\<not> HasSessionReadySent (ConnectionState (h c)) \<and> h' c = notified (h c) msg))"
  using assms
  by (auto simp: notify_ready_def send_ready_def try_send_def chan_try_send_def notified_def
      HasSessionReadySent_def SetSessionReadySent_def split: if_splits)

lemma notified_flag: "HasSessionReadySent (ConnectionState (notified c m))"
  by (simp add: notified_def HasSessionReadySent_def)

lemma notify_ready_open:
  assumes "\<not> SessionReadySent (ConnectionState (h c))" "\<not> is_closed (Send (h c))"
    "length (buf (Send (h c))) < cap (Send (h c))"
  shows "notify_ready c msg h = Inr (h(c := notified (h c) msg))"
  using assms
  by (simp add: notify_ready_def send_ready_def try_send_def chan_try_send_def notified_def
      HasSessionReadySent_def SetSessionReadySent_def)

text \<open>
  Claim C1, amended. When both slots of a Session are occupied, by distinct Clients of
  roles \<open>"mentor"\<close> and \<open>"user"\<close> that have not been notified and whose queues are
  open and have room, \<open>sendSessionReady\<close> for either of them as the new Client puts one
  \<open>session_ready\<close> notice at the end of each queue: the notice carries the display
  name of the opposite party and the role of the Client that receives it.
\<close>
theorem session_ready_contents:
  assumes slots: "Mentor session = Some m" "User session = Some u" "m \<noteq> u"
    and new: "newClient = m \<or> newClient = u"
    and roles: "Client.Role (h m) = ''mentor''" "Client.Role (h u) = ''user''"
    and auth: "WebSocketAuthContext.Role auth = Client.Role (h newClient)"
      "WebSocketAuthContext.Username auth = Client.Username (h newClient)"
    and fresh: "\<forall>c \<in> {m, u}. \<not> SessionReadySent (ConnectionState (h c)) \<and>
                 \<not> is_closed (Send (h c)) \<and> length (buf (Send (h c))) < cap (Send (h c))"
  shows "\<exists>h'. sendSessionReady session newClient auth h = Inr h' \<and>
           h' m = notified (h m) (session_ready (Client.Username (h u)) ''mentor'') \<and>
           h' u = notified (h u) (session_ready (Client.Username (h m)) ''user'') \<and>
           (\<forall>c. c \<noteq> m \<and> c \<noteq> u \<longrightarrow> h' c = h c)"
proof -
  from new show ?thesis
  proof
    assume n: "newClient = m"
    have 1: "notify_ready m (session_ready (Client.Username (h u)) ''mentor'') h
              = Inr (h(m := notified (h m) (session_ready (Client.Username (h u)) ''mentor'')))"
      using fresh by (intro notify_ready_open) simp_all
    let ?h1 = "h(m := notified (h m) (session_ready (Client.Username (h u)) ''mentor''))"
    have 2: "notify_ready u (session_ready (Client.Username (h m)) ''user'') ?h1
              = Inr (?h1(u := notified (?h1 u) (session_ready (Client.Username (h m)) ''user'')))"
      using fresh slots(3) by (intro notify_ready_open) simp_all
    show ?thesis
      using n slots roles auth 1 2
      by (simp add: sendSessionReady_def BothJoined_def GetOtherClient_def)
  next
    assume n: "newClient = u"
    have 1: "notify_ready u (session_ready (Client.Username (h m)) ''user'') h
              = Inr (h(u := notified (h u) (session_ready (Client.Username (h m)) ''user'')))"
      using fresh by (intro notify_ready_open) simp_all
    let ?h1 = "h(u := notified (h u) (session_ready (Client.Username (h m)) ''user''))"
    have 2: "notify_ready m (session_ready (Client.Username (h u)) ''mentor'') ?h1
              = Inr (?h1(m := notified (?h1 m) (session_ready (Client.Username (h u)) ''mentor'')))"
      using fresh slots(3) by (intro notify_ready_open) simp_all
    show ?thesis
      using n slots roles auth 1 2
      by (simp add: sendSessionReady_def BothJoined_def GetOtherClient_def)
  qed
qed

lemma sendSessionReady_effect:
  assumes "sendSessionReady session newClient auth h = Inr h'"
  shows "(HasSessionReadySent (ConnectionState (h c)) \<longrightarrow> h' c = h c) \<and>
         (h' c = h c \<or> (\<exists>m. mtype m = ''session_ready'' \<and> h' c = notified (h c) m))"
proof (cases "BothJoined session")
  case False
  with assms show ?thesis by (simp add: sendSessionReady_def)
next
  case True
  show ?thesis
  proof (cases "GetOtherClient session (WebSocketAuthContext.Role auth)")
    case None
    with True assms show ?thesis by (simp add: sendSessionReady_def)
  next
    case (Some other)
    let ?m1 = "session_ready (Client.Username (h other)) (WebSocketAuthContext.Role auth)"
    from True Some assms obtain h1 where
      1: "notify_ready newClient ?m1 h = Inr h1" and
      2: "notify_ready other (session_ready (WebSocketAuthContext.Username auth)
            (Client.Role (h1 other))) h1 = Inr h'"
      by (auto simp: sendSessionReady_def Let_def split: sum.splits)
    let ?m2 = "session_ready (WebSocketAuthContext.Username auth) (Client.Role (h1 other))"
    note e1 = notify_ready_effect [OF 1] and e2 = notify_ready_effect [OF 2]
    have t: "mtype ?m1 = ''session_ready''" "mtype ?m2 = ''session_ready''"
      by (simp_all add: session_ready_def)
    have a: "HasSessionReadySent (ConnectionState (h c)) \<longrightarrow> h' c = h c"
    proof
      assume f: "HasSessionReadySent (ConnectionState (h c))"
      have "h1 c = h c" using e1 f by (cases "c = newClient") auto
      moreover have "h' c = h1 c" using e2 f \<open>h1 c = h c\<close> by (cases "c = other") auto
      ultimately show "h' c = h c" by simp
    qed
    have b: "h' c = h c \<or> (\<exists>m. mtype m = ''session_ready'' \<and> h' c = notified (h c) m)"
    proof (cases "h1 c = h c")
      case True
      then show ?thesis using e2 t by (cases "c = other") auto
    next
      case False
      then have n: "h1 c = notified (h c) ?m1" and cn: "c = newClient" using e1 by auto
      have "HasSessionReadySent (ConnectionState (h1 c))" using n by (simp add: notified_flag)
      then have "h' c = h1 c" using e2 by (cases "c = other") auto
      with n t show ?thesis by auto
    qed
    from a b show ?thesis by simp
  qed
qed

text \<open>Steps that leave the flag and the notices of a flagged Client alone.\<close>

lemma Client_Close_keeps:
  "Client_Close x h = Inr h' \<Longrightarrow>
   ConnectionState (h' c) = ConnectionState (h c) \<and> buf (Send (h' c)) = buf (Send (h c))"
  by (auto simp: Client_Close_def chan_close_def split: if_splits)

lemma AddClient_keeps:
  "AddClient b x now reg h = Inr (s, reg', h') \<Longrightarrow>
   ConnectionState (h' c) = ConnectionState (h c) \<and> buf (Send (h' c)) = buf (Send (h c))"
  by (auto simp: AddClient_def close_duplicate_def Let_def
      split: option.splits sum.splits if_splits dest: Client_Close_keeps)

lemma try_send_keeps:
  "try_send x m h = Inr (ok, h') \<Longrightarrow> mtype m \<noteq> ''session_ready'' \<Longrightarrow>
   ConnectionState (h' c) = ConnectionState (h c) \<and> ready_count (h' c) = ready_count (h c)"
  by (auto simp: try_send_def chan_try_send_def ready_count_def split: if_splits)

lemma HandleClientLeft_keeps:
  assumes "HandleClientLeft b role now dbnow w = Inr w'"
  shows "ConnectionState (clients w' c) = ConnectionState (clients w c) \<and>
         ready_count (clients w' c) = ready_count (clients w c)"
  using assms
  by (auto simp: HandleClientLeft_def Let_def other_party_left_def ready_count_def
      split: option.splits sum.splits if_splits prod.splits
      dest!: Client_Close_keeps [where c = c] try_send_keeps [where c = c])

lemma readPump_cleanup_keeps:
  assumes "readPump_cleanup x now dbnow w = Inr w'"
  shows "ConnectionState (clients w' c) = ConnectionState (clients w c) \<and>
         ready_count (clients w' c) = ready_count (clients w c)"
  using assms
  by (auto simp: readPump_cleanup_def Let_def ready_count_def split: sum.splits
      dest!: HandleClientLeft_keeps [where c = c])

lemma HandleWebSocket_keeps:
  assumes "HandleWebSocket (Some a) True newID x now dbnow w = Inr w'" and "c \<noteq> x"
    and "HasSessionReadySent (ConnectionState (clients w c))"
  shows "HasSessionReadySent (ConnectionState (clients w' c)) \<and>
         ready_count (clients w' c) = ready_count (clients w c)"
proof -
  let ?h0 = "(clients w)(x := \<lparr>Client.ID = newID,
                      Client.BookingID = WebSocketAuthContext.BookingID a,
                      Client.Role = WebSocketAuthContext.Role a,
                      Client.UserID = WebSocketAuthContext.UserID a,
                      Client.MentorID = WebSocketAuthContext.MentorID a,
                      Client.Username = WebSocketAuthContext.Username a,
                      Conn_closed = False,
                      Send = make_chan 256,
                      Client.Done = make_chan 0,
                      ConnectionState = NewConnectionState\<rparr>)"
  from assms(1) obtain session reg h1 where
    add: "AddClient (WebSocketAuthContext.BookingID a) x now (sessions w) ?h0 = Inr (session, reg, h1)"
    by (auto simp: HandleWebSocket_def Let_def split: sum.splits)
  let ?w1 = "HandleClientJoined x dbnow (w\<lparr>clients := h1, sessions := reg\<rparr>)"
  have cl: "clients ?w1 = h1" by (simp add: HandleClientJoined_def Let_def)
  from assms(1) add obtain h2 where
    ssr: "sendSessionReady session x a h1 = Inr h2" and w': "clients w' = h2"
    by (auto simp: HandleWebSocket_def Let_def cl split: sum.splits)
  have k1: "ConnectionState (h1 c) = ConnectionState (clients w c)"
           "buf (Send (h1 c)) = buf (Send (clients w c))"
    using AddClient_keeps [OF add, of c] assms(2) by simp_all
  then have "HasSessionReadySent (ConnectionState (h1 c))" using assms(3) by simp
  then have "h2 c = h1 c" using sendSessionReady_effect [OF ssr, of c] by simp
  with k1 w' assms(3) show ?thesis by (simp add: ready_count_def)
qed

lemma readPump_turn_keeps:
  assumes "readPump_turn dec x session input h = Inr (l, h')"
  shows "ConnectionState (h' c) = ConnectionState (h c) \<and> ready_count (h' c) = ready_count (h c)"
proof -
  have send: "\<And>role m h1. SendToRole session role m h = Inr h1 \<Longrightarrow> mtype m \<noteq> ''session_ready'' \<Longrightarrow>
      ConnectionState (h1 c) = ConnectionState (h c) \<and> ready_count (h1 c) = ready_count (h c)"
    by (auto simp: SendToRole_def send_if_present_def split: option.splits sum.splits if_splits
        dest!: try_send_keeps [where c = c])
  show ?thesis
  proof (cases input)
    case ReadFailed
    with assms show ?thesis by (simp add: readPump_turn_def)
  next
    case EnvelopeUnparsed
    with assms show ?thesis by (simp add: readPump_turn_def)
  next
    case (Frame msg)
    with assms show ?thesis
      by (auto simp: readPump_turn_def handleOfferMessage_def handleAnswerMessage_def
          handleICECandidateMessage_def
          split: if_splits option.splits sum.splits prod.splits
          dest!: send try_send_keeps [where c = c])
  qed
qed

lemma run_keeps:
  "run dec now sts w = Inr w' \<Longrightarrow> c \<notin> allocated sts \<Longrightarrow>
   HasSessionReadySent (ConnectionState (clients w c)) \<Longrightarrow>
   HasSessionReadySent (ConnectionState (clients w' c)) \<and>
   ready_count (clients w' c) = ready_count (clients w c)"
proof (induction dec now sts w rule: run.induct)
  case (1 dec now w)
  then show ?case by simp
next
  case (2 dec now a newID client sts w)
  from "2.prems"(1) obtain w1 where
    s: "HandleWebSocket (Some a) True newID client now now w = Inr w1"
    and r: "run dec now sts w1 = Inr w'"
    by (auto split: sum.splits)
  from "2.prems"(2) have ne: "c \<noteq> client" and na: "c \<notin> allocated sts" by simp_all
  from HandleWebSocket_keeps [OF s ne "2.prems"(3)]
  have k: "HasSessionReadySent (ConnectionState (clients w1 c))"
    "ready_count (clients w1 c) = ready_count (clients w c)" by simp_all
  from "2.IH" [OF s r na k(1)] k(2) show ?case by simp
next
  case (3 dec now client sts w)
  from "3.prems"(1) obtain w1 where
    s: "readPump_cleanup client now now w = Inr w1" and r: "run dec now sts w1 = Inr w'"
    by (auto split: sum.splits)
  from readPump_cleanup_keeps [OF s, of c] "3.prems"(3)
  have k: "HasSessionReadySent (ConnectionState (clients w1 c))"
    "ready_count (clients w1 c) = ready_count (clients w c)" by simp_all
  from "3.prems"(2) have na: "c \<notin> allocated sts" by simp
  from "3.IH" [OF s r na k(1)] k(2) show ?case by simp
next
  case (4 dec now client session input sts w)
  from "4.prems"(2) have na: "c \<notin> allocated sts" by simp
  from "4.prems"(1) obtain l h where
    t: "readPump_turn dec client session input (clients w) = Inr (l, h)"
    by (auto split: sum.splits)
  from readPump_turn_keeps [OF t, of c] "4.prems"(3)
  have kt: "HasSessionReadySent (ConnectionState (h c))"
    "ready_count (h c) = ready_count (clients w c)" by simp_all
  show ?case
  proof (cases l)
    case Continue
    with "4.prems"(1) t have r: "run dec now sts (w\<lparr>clients := h\<rparr>) = Inr w'" by simp
    from "4.IH"(1) [OF t refl Continue r na] kt show ?thesis by simp
  next
    case Return
    with "4.prems"(1) t obtain w1 where
      s: "readPump_cleanup client now now (w\<lparr>clients := h\<rparr>) = Inr w1"
      and r: "run dec now sts w1 = Inr w'"
      by (auto split: sum.splits)
    from readPump_cleanup_keeps [OF s, of c] kt
    have k: "HasSessionReadySent (ConnectionState (clients w1 c))"
      "ready_count (clients w1 c) = ready_count (clients w c)" by simp_all
    from "4.IH"(2) [OF t refl Return s r na k(1)] k(2) show ?thesis by simp
  qed
qed

text \<open>
  Claim C2, amended. The notice is guarded by a flag of each Client, not of each role,
  and among handlers that do not overlap it is sent at most once to each Client.
  A call of \<open>sendSessionReady\<close> that no other handler interleaves with leaves a Client
  whose flag is set as it was, and to any other Client it does nothing or adds exactly
  one \<open>session_ready\<close> notice and sets the flag. And over any serial run of
  connections, disconnections and frames, a Client whose flag is set (and whose
  address is not allocated again) keeps the flag and gets no further
  \<open>session_ready\<close> notice.
\<close>
theorem session_ready_once_per_client:
  "(sendSessionReady session newClient auth h = Inr h' \<longrightarrow>
      (\<forall>c. (HasSessionReadySent (ConnectionState (h c)) \<longrightarrow> h' c = h c) \<and>
           (h' c = h c \<or> (\<exists>m. mtype m = ''session_ready'' \<and> h' c = notified (h c) m)))) \<and>
   (run dec now sts w = Inr w' \<and> c \<notin> allocated sts \<and>
    HasSessionReadySent (ConnectionState (clients w c)) \<longrightarrow>
      HasSessionReadySent (ConnectionState (clients w' c)) \<and>
      ready_count (clients w' c) = ready_count (clients w c))"
  using sendSessionReady_effect run_keeps by blast

text \<open>The rounding to \<open>float64\<close> and the conversion of a duration to seconds.\<close>

lemma pow2_pos: "0 < pow2 e"
  by (simp add: pow2_def)

lemma pow2_add: "pow2 (a + b) = pow2 a * pow2 b"
proof -
  have "pow2 e = 2 powi e" for e
    by (simp add: pow2_def power_int_def field_simps)
  then show ?thesis by (simp add: power_int_add)
qed

lemma pow2_mono: "a \<le> b \<Longrightarrow> pow2 a \<le> pow2 b"
proof -
  have "pow2 e = 2 powi e" for e
    by (simp add: pow2_def power_int_def field_simps)
  then show "a \<le> b \<Longrightarrow> pow2 a \<le> pow2 b" by (simp add: power_int_increasing)
qed

lemma pow2_less_imp: "pow2 a < pow2 b \<Longrightarrow> a < b"
  using pow2_mono [of b a] by (cases "a < b") auto

lemma pow2_nat: "0 \<le> e \<Longrightarrow> pow2 e = 2 ^ nat e"
  by (simp add: pow2_def)

lemma round_half_even_int: "round_half_even (of_int n) = n"
  by (simp add: round_half_even_def)

lemma round_half_even_near: "\<bar>of_int (round_half_even t) - t\<bar> \<le> 1 / 2"
proof -
  define n where "n = \<lfloor>t\<rfloor>"
  define r where "r = t - of_int n"
  have r: "0 \<le> r" "r < 1" unfolding r_def n_def by linarith+
  have t: "t = of_int n + r" by (simp add: r_def)
  have "round_half_even t = (if r < 1 / 2 then n else if 1 / 2 < r then n + 1
          else if even n then n else n + 1)"
    by (simp add: round_half_even_def Let_def n_def r_def)
  then show ?thesis using r unfolding t by (auto simp: abs_if)
qed

lemma round_half_even_ge: "of_int n \<le> t \<Longrightarrow> n \<le> round_half_even t"
proof -
  assume "of_int n \<le> t"
  then have "n \<le> \<lfloor>t\<rfloor>" by (simp add: le_floor_iff)
  then show ?thesis by (auto simp: round_half_even_def Let_def)
qed

lemma binary_exponent_le:
  assumes "0 < q"
  shows "pow2 (binary_exponent q) \<le> q"
proof -
  obtain a b where ab: "quotient_of q = (a, b)" by (cases "quotient_of q")
  then have b: "0 < b" and q: "q = of_int a / of_int b"
    using quotient_of_denom_pos quotient_of_div by auto
  with assms have a: "0 < a" by (simp add: zero_less_divide_iff)
  let ?e = "bitlen a - bitlen b"
  show ?thesis
  proof (cases "pow2 ?e \<le> q")
    case True
    then show ?thesis by (simp add: binary_exponent_def ab)
  next
    case False
    have la: "(2::int) ^ nat (bitlen a - 1) \<le> a" using bitlen_bounds [OF a] by simp
    have ub: "b < 2 ^ nat (bitlen b)" using bitlen_bounds [OF b] by simp
    have ba: "1 \<le> bitlen a" using a by (auto simp: bitlen_alt_def)
    have bb: "0 \<le> bitlen b" by (rule bitlen_nonneg)
    have "(of_int b :: rat) \<le> 2 ^ nat (bitlen b)" using ub by simp
    then have "of_int b \<le> pow2 (bitlen b)" using bb by (simp only: pow2_nat)
    then have "pow2 (?e - 1) * of_int b \<le> pow2 (?e - 1) * pow2 (bitlen b)"
      using pow2_pos [of "?e - 1"] by (intro mult_left_mono) (auto simp: less_imp_le)
    also have "\<dots> = pow2 (?e - 1 + bitlen b)"
      by (simp only: pow2_add)
    also have "?e - 1 + bitlen b = bitlen a - 1" by simp
    also have "pow2 (bitlen a - 1) \<le> of_int a"
    proof -
      have "(2::rat) ^ nat (bitlen a - 1) \<le> of_int a" using la by simp
      moreover have "0 \<le> bitlen a - 1" using ba by simp
      ultimately show ?thesis by (simp only: pow2_nat)
    qed
    finally have "pow2 (?e - 1) * of_int b \<le> of_int a" .
    then have "pow2 (?e - 1) \<le> of_int a / of_int b"
      using b by (simp add: pos_le_divide_eq)
    then have "pow2 (?e - 1) \<le> q" by (simp only: q)
    moreover have "binary_exponent q = ?e - 1"
      using False by (simp add: binary_exponent_def ab)
    ultimately show ?thesis by simp
  qed
qed

lemma float64_pos:
  assumes "0 < m"
  shows "float64 m = of_int (round_half_even (m * pow2 (52 - binary_exponent m)))
           * pow2 (binary_exponent m - 52)"
  using assms by (simp add: float64_def Let_def)

lemma float64_minus: "float64 (- q) = - float64 q"
  by (simp add: float64_def Let_def)

lemma float64_error:
  assumes "0 < m" and "m < pow2 k"
  shows "\<bar>float64 m - m\<bar> \<le> pow2 (k - 54)"
proof -
  let ?e = "binary_exponent m"
  have "pow2 ?e < pow2 k" using binary_exponent_le [OF assms(1)] assms(2) by simp
  then have ek: "?e \<le> k - 1" using pow2_less_imp by fastforce
  let ?t = "m * pow2 (52 - ?e)"
  have "pow2 (52 - ?e) * pow2 (?e - 52) = pow2 (52 - ?e + (?e - 52))" by (simp only: pow2_add)
  also have "\<dots> = 1" by (simp add: pow2_def)
  finally have one: "pow2 (52 - ?e) * pow2 (?e - 52) = 1" .
  have m: "?t * pow2 (?e - 52) = m"
    using one by (simp add: mult.assoc)
  have "float64 m - m = of_int (round_half_even ?t) * pow2 (?e - 52) - ?t * pow2 (?e - 52)"
    using float64_pos [OF assms(1)] by (simp only: m)
  also have "\<dots> = (of_int (round_half_even ?t) - ?t) * pow2 (?e - 52)"
    by (simp only: left_diff_distrib)
  finally have "\<bar>float64 m - m\<bar> = \<bar>of_int (round_half_even ?t) - ?t\<bar> * pow2 (?e - 52)"
    using pow2_pos [of "?e - 52"] by (simp add: abs_mult)
  also have "\<dots> \<le> (1 / 2) * pow2 (?e - 52)"
    using round_half_even_near [of ?t] pow2_pos [of "?e - 52"] by (intro mult_right_mono) simp_all
  also have "\<dots> = pow2 (?e - 53)"
  proof -
    have "pow2 (?e - 52) = pow2 (1 + (?e - 53))" by simp
    also have "\<dots> = pow2 1 * pow2 (?e - 53)" by (simp only: pow2_add)
    finally show ?thesis by (simp add: pow2_def)
  qed
  also have "\<dots> \<le> pow2 (k - 54)" using ek by (intro pow2_mono) simp
  finally show ?thesis .
qed

lemma float64_ge_int:
  assumes "0 < m" and "m < pow2 53" and "of_int n \<le> m"
  shows "of_int n \<le> float64 m"
proof -
  let ?e = "binary_exponent m"
  have "pow2 ?e < pow2 53" using binary_exponent_le [OF assms(1)] assms(2) by simp
  then have e: "0 \<le> 52 - ?e" using pow2_less_imp by fastforce
  let ?t = "m * pow2 (52 - ?e)"
  have "of_int n * pow2 (52 - ?e) \<le> ?t"
    using assms(3) pow2_pos [of "52 - ?e"] by (intro mult_right_mono) simp_all
  then have "of_int (n * 2 ^ nat (52 - ?e)) \<le> ?t"
    using e by (simp add: pow2_nat)
  then have "n * 2 ^ nat (52 - ?e) \<le> round_half_even ?t" by (rule round_half_even_ge)
  then have "of_int (n * 2 ^ nat (52 - ?e)) \<le> (of_int (round_half_even ?t) :: rat)"
    by (simp only: of_int_le_iff)
  then have "of_int n * pow2 (52 - ?e) \<le> of_int (round_half_even ?t)"
    using e by (simp add: pow2_nat)
  then have "of_int n * pow2 (52 - ?e) * pow2 (?e - 52) \<le> of_int (round_half_even ?t) * pow2 (?e - 52)"
    using pow2_pos [of "?e - 52"] by (intro mult_right_mono) simp_all
  moreover have "of_int n * pow2 (52 - ?e) * pow2 (?e - 52) = of_int n"
  proof -
    have "pow2 (52 - ?e) * pow2 (?e - 52) = pow2 (52 - ?e + (?e - 52))" by (simp only: pow2_add)
    also have "\<dots> = 1" by (simp add: pow2_def)
    finally show ?thesis by (simp add: mult.assoc)
  qed
  ultimately show ?thesis using float64_pos [OF assms(1)] by simp
qed

lemma float64_le_int:
  assumes "0 < m" and "m < pow2 53" and "m \<le> of_int n"
  shows "float64 m \<le> of_int n"
proof -
  let ?e = "binary_exponent m"
  have "pow2 ?e < pow2 53" using binary_exponent_le [OF assms(1)] assms(2) by simp
  then have e: "0 \<le> 52 - ?e" using pow2_less_imp by fastforce
  let ?t = "m * pow2 (52 - ?e)"
  have "?t \<le> of_int n * pow2 (52 - ?e)"
    using assms(3) pow2_pos [of "52 - ?e"] by (intro mult_right_mono) simp_all
  then have t: "?t \<le> of_int (n * 2 ^ nat (52 - ?e))"
    using e by (simp add: pow2_nat)
  have "round_half_even ?t \<le> n * 2 ^ nat (52 - ?e)"
  proof (rule ccontr)
    assume "\<not> ?thesis"
    then have "n * 2 ^ nat (52 - ?e) + 1 \<le> round_half_even ?t" by simp
    then have "of_int (n * 2 ^ nat (52 - ?e)) + 1 \<le> (of_int (round_half_even ?t) :: rat)"
      by (metis of_int_1 of_int_add of_int_le_iff)
    with t round_half_even_near [of ?t] show False by (simp add: abs_if split: if_splits)
  qed
  then have "(of_int (round_half_even ?t) :: rat) \<le> of_int (n * 2 ^ nat (52 - ?e))"
    by (simp only: of_int_le_iff)
  then have "of_int (round_half_even ?t) \<le> of_int n * pow2 (52 - ?e)"
    using e by (simp add: pow2_nat)
  then have "of_int (round_half_even ?t) * pow2 (?e - 52) \<le> of_int n * pow2 (52 - ?e) * pow2 (?e - 52)"
    using pow2_pos [of "?e - 52"] by (intro mult_right_mono) simp_all
  moreover have "of_int n * pow2 (52 - ?e) * pow2 (?e - 52) = of_int n"
  proof -
    have "pow2 (52 - ?e) * pow2 (?e - 52) = pow2 (52 - ?e + (?e - 52))" by (simp only: pow2_add)
    also have "\<dots> = 1" by (simp add: pow2_def)
    finally show ?thesis by (simp add: mult.assoc)
  qed
  ultimately show ?thesis using float64_pos [OF assms(1)] by simp
qed

lemma float64_of_int:
  assumes "\<bar>n\<bar> < 2 ^ 53"
  shows "float64 (of_int n) = of_int n"
proof -
  have pos: "float64 (of_int k) = of_int k" if "0 < k" "k < 2 ^ 53" for k :: int
  proof -
    have 1: "(0::rat) < of_int k" using that by simp
    have 2: "(of_int k :: rat) < pow2 53"
      using that(2) by (simp add: pow2_def)
    from float64_ge_int [OF 1 2, of k] float64_le_int [OF 1 2, of k]
    show ?thesis by simp
  qed
  consider "n = 0" | "0 < n" | "n < 0" by linarith
  then show ?thesis
  proof cases
    case 1
    then show ?thesis by (simp add: float64_def)
  next
    case 2
    with assms pos show ?thesis by simp
  next
    case 3
    with assms pos [of "- n"] float64_minus [of "of_int (- n)"] show ?thesis by simp
  qed
qed

lemma float64_nonneg:
  assumes "0 \<le> m" and "m < pow2 53"
  shows "0 \<le> float64 m"
proof (cases "m = 0")
  case True
  then show ?thesis by (simp add: float64_def)
next
  case False
  with assms have "0 < m" by simp
  from float64_ge_int [OF this assms(2), of 0] assms(1) show ?thesis by simp
qed

lemma Seconds_bounds:
  assumes d: "0 \<le> d" "d \<le> 2 ^ 63"
  shows "of_int (d div 1000000000) \<le> Seconds d"
    and "d div 1000000000 < 2 ^ 24 \<Longrightarrow> Seconds d < of_int (d div 1000000000) + 1"
proof -
  define sec where "sec = d div 1000000000"
  define ns where "ns = d mod 1000000000"
  have sec: "0 \<le> sec" "sec < 2 ^ 34" using d unfolding sec_def by simp_all
  have ns: "0 \<le> ns" "ns < 1000000000" unfolding ns_def by simp_all
  have sd: "d sdiv 1000000000 = sec" "d smod 1000000000 = ns"
    using d(1) by (simp_all add: signed_divide_int_def signed_modulo_int_def sec_def ns_def sgn_if)
  have f1: "float64 (of_int sec) = of_int sec"
    using sec by (intro float64_of_int) simp
  have f2: "float64 (of_int ns) = of_int ns"
    using ns by (intro float64_of_int) simp
  define q :: rat where "q = of_int ns / 1000000000"
  define x where "x = float64 q"
  have q: "0 \<le> q" "q \<le> 999999999 / 1000000000"
    using ns by (simp_all add: q_def)
  have x0: "0 \<le> x" unfolding x_def using q by (intro float64_nonneg) (simp_all add: pow2_def)
  have x1: "x \<le> q + pow2 (- 54)"
  proof (cases "q = 0")
    case True
    then show ?thesis using pow2_pos [of "- 54"] by (simp add: x_def float64_def less_imp_le)
  next
    case False
    with q have "0 < q" "q < pow2 0" by (simp_all add: pow2_def)
    from float64_error [OF this] show ?thesis by (simp add: x_def abs_if split: if_splits)
  qed
  define z where "z = of_int sec + x"
  have S: "Seconds d = float64 z"
    by (simp add: Seconds_def sd f1 f2 z_def x_def q_def)
  have z0: "of_int sec \<le> z" using x0 by (simp add: z_def)
  have zu: "z < of_int sec + 1"
    using x1 q by (simp add: z_def pow2_def)
  have z53: "z < pow2 53"
  proof -
    have "(of_int sec :: rat) < 2 ^ 34" using sec(2) by simp
    with zu show ?thesis by (simp add: pow2_def)
  qed
  show "of_int (d div 1000000000) \<le> Seconds d"
  proof (cases "z = 0")
    case True
    with z0 sec show ?thesis by (simp add: S float64_def sec_def)
  next
    case False
    with z0 sec have "0 < z" by simp
    from float64_ge_int [OF this z53 z0] show ?thesis by (simp add: S sec_def)
  qed
  show "Seconds d < of_int (d div 1000000000) + 1" if "d div 1000000000 < 2 ^ 24"
  proof (cases "z = 0")
    case True
    with z0 sec show ?thesis by (simp add: S float64_def sec_def)
  next
    case False
    with z0 sec have zp: "0 < z" by simp
    have "(of_int sec :: rat) + 1 \<le> 2 ^ 24"
    proof -
      have "sec + 1 \<le> 2 ^ 24" using that by (simp add: sec_def)
      then have "(of_int (sec + 1) :: rat) \<le> of_int (2 ^ 24)" by (simp only: of_int_le_iff)
      then show ?thesis by simp
    qed
    with zu have "z < pow2 24" by (simp add: pow2_def)
    from float64_error [OF zp this] have "float64 z \<le> z + pow2 (- 30)"
      by (simp add: abs_if split: if_splits)
    also have "\<dots> \<le> of_int sec + (999999999 / 1000000000 + pow2 (- 54) + pow2 (- 30))"
      using x1 q by (simp add: z_def)
    also have "\<dots> < of_int sec + 1"
      by (simp add: pow2_def)
    finally show ?thesis by (simp add: S sec_def)
  qed
qed

lemma whole_seconds_nonneg:
  assumes d: "0 \<le> d" "d \<le> 2 ^ 63"
  shows "d div 1000000000 \<le> whole_seconds d"
    and "d div 1000000000 < 2 ^ 24 \<Longrightarrow> whole_seconds d = d div 1000000000"
proof -
  note b = Seconds_bounds [OF d]
  have n: "0 \<le> Seconds d"
  proof -
    have "(0::rat) \<le> of_int (d div 1000000000)" using d(1) by simp
    with b(1) show ?thesis by linarith
  qed
  then have w: "whole_seconds d = \<lfloor>Seconds d\<rfloor>"
    by (simp add: whole_seconds_def int_of_float64_def)
  show "d div 1000000000 \<le> whole_seconds d"
    using b(1) by (simp add: w le_floor_iff)
  show "whole_seconds d = d div 1000000000" if "d div 1000000000 < 2 ^ 24"
    using b(1) b(2) [OF that] unfolding w by (simp add: floor_unique)
qed

lemma Seconds_minus: "Seconds (- d) = - Seconds d"
proof -
  have "(- d) sdiv 1000000000 = - (d sdiv 1000000000)"
    "(- d) smod 1000000000 = - (d smod 1000000000)"
    by (simp_all add: signed_divide_int_def signed_modulo_int_def sgn_if)
  then have "Seconds (- d) =
      float64 (- (float64 (of_int (d sdiv 1000000000))
                  + float64 (float64 (of_int (d smod 1000000000)) / 1000000000)))"
    by (simp add: Seconds_def float64_minus)
  then show ?thesis
    by (simp only: float64_minus Seconds_def)
qed

lemma whole_seconds_minus: "whole_seconds (- d) = - whole_seconds d"
  by (auto simp: whole_seconds_def Seconds_minus int_of_float64_def ceiling_minus
      ceiling_def)

lemma whole_seconds_in_range:
  assumes "\<bar>d\<bar> < 16777216 * 1000000000"
  shows "whole_seconds d = d sdiv 1000000000"
proof -
  have pos: "whole_seconds k = k div 1000000000" if "0 \<le> k" "k < 16777216 * 1000000000" for k
  proof -
    have "k div 1000000000 < 2 ^ 24" using that by simp
    moreover have "k \<le> 2 ^ 63" using that by simp
    ultimately show ?thesis using that(1) by (intro whole_seconds_nonneg(2)) simp_all
  qed
  show ?thesis
  proof (cases "0 \<le> d")
    case True
    with assms pos [of d] show ?thesis
      by (simp add: signed_divide_int_def sgn_if)
  next
    case False
    with assms pos [of "- d"] whole_seconds_minus [of d] show ?thesis
      by (simp add: signed_divide_int_def sgn_if)
  qed
qed

lemma whole_seconds_zero:
  assumes "\<bar>d\<bar> \<le> 2 ^ 63"
  shows "whole_seconds d = 0 \<longleftrightarrow> \<bar>d\<bar> < 1000000000"
proof -
  have pos: "whole_seconds k = 0 \<longleftrightarrow> k < 1000000000" if "0 \<le> k" "k \<le> 2 ^ 63" for k
  proof (cases "k < 1000000000")
    case True
    with that whole_seconds_in_range [of k] show ?thesis
      by (simp add: signed_divide_int_def sgn_if)
  next
    case False
    then have "1 \<le> k div 1000000000" by simp
    with whole_seconds_nonneg(1) [OF that] False show ?thesis by simp
  qed
  show ?thesis
  proof (cases "0 \<le> d")
    case True
    with assms pos [of d] show ?thesis by simp
  next
    case False
    with assms pos [of "- d"] whole_seconds_minus [of d] show ?thesis by simp
  qed
qed

lemma Sub_in_range: "\<bar>t - u\<bar> < 2 ^ 63 \<Longrightarrow> Sub t u = t - u"
  by (simp add: Sub_def)

lemma Sub_abs: "\<bar>Sub t u\<bar> \<le> 2 ^ 63"
  by (simp add: Sub_def)

lemma Sub_small: "\<bar>Sub t u\<bar> < 1000000000 \<longleftrightarrow> \<bar>t - u\<bar> < 1000000000"
  by (auto simp: Sub_def max_def min_def abs_if)

text \<open>From \<open>2^24\<close> seconds on the conversion can round up to the next second.\<close>

lemma whole_seconds_rounds_up:
  "whole_seconds 16777216999999999 = 16777217"
  "16777216999999999 sdiv 1000000000 = (16777216::int)"
  by code_simp+

text \<open>
  Claim C9, amended. \<open>EndSession\<close> reports "not found" and changes nothing when the
  booking has no row. Otherwise it marks the row completed, sets its end time to the
  database's clock and stores a duration: zero when the row has no start time or has
  an end time already, and otherwise \<open>int(time.Since(start).Seconds())\<close>, which is the
  whole seconds (rounded towards zero) from the recorded start to now whenever less
  than \<open>2^24\<close> seconds lie between them. The stored duration is zero exactly when the
  session was never started, or had already been ended, or less than a second lies
  between start and now. The reason is not stored: the result is the same for every
  reason.
\<close>
theorem EndSession_duration:
  "(tbl b = None \<longrightarrow> EndSession tbl b reason now dbnow = (Some VideoSessionNotFound, tbl)) \<and>
   (\<forall>v. tbl b = Some v \<longrightarrow>
      (\<exists>d. EndSession tbl b reason now dbnow =
             (None, tbl(b \<mapsto> v\<lparr>SessionEndedAt := Some dbnow, DurationSeconds := d,
                                Status := VideoSessionStatusCompleted, UpdatedAt := dbnow\<rparr>)) \<and>
           (\<forall>started. SessionStartedAt v = Some started \<and> SessionEndedAt v = None \<and>
                \<bar>now - started\<bar> < 16777216 * 1000000000
              \<longrightarrow> d = (now - started) sdiv 1000000000) \<and>
           (d = 0 \<longleftrightarrow> SessionStartedAt v = None \<or> SessionEndedAt v \<noteq> None \<or>
                     (\<exists>started. SessionStartedAt v = Some started \<and>
                                \<bar>now - started\<bar> < 1000000000)))) \<and>
   EndSession tbl b reason now dbnow = EndSession tbl b reason' now dbnow"
proof -
  have none: "tbl b = None \<longrightarrow> EndSession tbl b reason now dbnow = (Some VideoSessionNotFound, tbl)"
    by (simp add: EndSession_def GetByBookingID_def)
  have same: "EndSession tbl b reason now dbnow = EndSession tbl b reason' now dbnow"
    by (simp add: EndSession_def GetByBookingID_def VideoSessionRepository_EndSession_def
        split: option.splits)
  have row: "\<exists>d. EndSession tbl b reason now dbnow =
             (None, tbl(b \<mapsto> v\<lparr>SessionEndedAt := Some dbnow, DurationSeconds := d,
                                Status := VideoSessionStatusCompleted, UpdatedAt := dbnow\<rparr>)) \<and>
           (\<forall>started. SessionStartedAt v = Some started \<and> SessionEndedAt v = None \<and>
                \<bar>now - started\<bar> < 16777216 * 1000000000
              \<longrightarrow> d = (now - started) sdiv 1000000000) \<and>
           (d = 0 \<longleftrightarrow> SessionStartedAt v = None \<or> SessionEndedAt v \<noteq> None \<or>
                     (\<exists>started. SessionStartedAt v = Some started \<and>
                                \<bar>now - started\<bar> < 1000000000))"
    if v: "tbl b = Some v" for v
  proof -
    define d where "d = (case SessionStartedAt v of
                           Some started \<Rightarrow>
                             if SessionEndedAt v = None then whole_seconds (Sub now started) else 0
                         | None \<Rightarrow> 0)"
    have e: "EndSession tbl b reason now dbnow =
             (None, tbl(b \<mapsto> v\<lparr>SessionEndedAt := Some dbnow, DurationSeconds := d,
                                Status := VideoSessionStatusCompleted, UpdatedAt := dbnow\<rparr>))"
      using v by (simp add: EndSession_def GetByBookingID_def VideoSessionRepository_EndSession_def
          update_row_def d_def)
    have r: "d = (now - started) sdiv 1000000000"
      if "SessionStartedAt v = Some started" "SessionEndedAt v = None"
        "\<bar>now - started\<bar> < 16777216 * 1000000000" for started
    proof -
      have "Sub now started = now - started" using that(3) by (intro Sub_in_range) simp
      moreover have "whole_seconds (now - started) = (now - started) sdiv 1000000000"
        using that(3) by (rule whole_seconds_in_range)
      ultimately show ?thesis using that(1,2) by (simp add: d_def)
    qed
    have z: "d = 0 \<longleftrightarrow> SessionStartedAt v = None \<or> SessionEndedAt v \<noteq> None \<or>
                     (\<exists>started. SessionStartedAt v = Some started \<and>
                                \<bar>now - started\<bar> < 1000000000)"
    proof (cases "SessionStartedAt v")
      case None
      then show ?thesis by (simp add: d_def)
    next
      case (Some started)
      show ?thesis
      proof (cases "SessionEndedAt v = None")
        case True
        have "whole_seconds (Sub now started) = 0 \<longleftrightarrow> \<bar>now - started\<bar> < 1000000000"
          using whole_seconds_zero [OF Sub_abs, of now started] by (simp only: Sub_small)
        with Some True show ?thesis by (simp add: d_def)
      next
        case False
        with Some show ?thesis by (auto simp: d_def)
      qed
    qed
    from e r z show ?thesis by blast
  qed
  from none same row show ?thesis by blast
qed

section \<open>Instances\<close>

lemmas example_defs =
  example_heap_def example_client_def example_session_def example_registry_def
  blank_client_def make_chan_def NewConnectionState_def alice_def bob_def
  plain_decoders_def ended_row_def

lemmas run_defs =
  HandleWebSocket_def AddClient_def close_duplicate_def Client_Close_def chan_close_def
  HandleClientJoined_def sendSessionReady_def notify_ready_def send_ready_def try_send_def chan_try_send_def
  BothJoined_def GetOtherClient_def HasSessionReadySent_def SetSessionReadySent_def
  NewSession_def NewHub_def session_ready_def
  RecordMentorJoined_def RecordUserJoined_def update_row_def
  readPump_cleanup_def HandleClientLeft_def GetSession_def RemoveClient_def
  RecordMentorLeft_def RecordUserLeft_def EndSession_def GetByBookingID_def other_party_left_def
  empty_world_def Let_def

text \<open>
  A session started 90.5 seconds ago and not yet ended: 90 seconds are stored.
\<close>
theorem EndSession_duration_witness:
  "EndSession (Map.empty(7 \<mapsto> ended_row\<lparr>SessionEndedAt := None\<rparr>)) 7 ''party_left''
       1090500000000 1090600000000 =
     (None, Map.empty(7 \<mapsto> ended_row\<lparr>SessionEndedAt := Some 1090600000000, DurationSeconds := 90,
                                        Status := VideoSessionStatusCompleted,
                                        UpdatedAt := 1090600000000\<rparr>))"
  using EndSession_duration [where tbl = "Map.empty(7 \<mapsto> ended_row\<lparr>SessionEndedAt := None\<rparr>)"
      and b = 7 and reason = "''party_left''" and now = 1090500000000 and dbnow = 1090600000000
      and reason' = "''party_left''"]
  by (auto simp: ended_row_def signed_divide_int_def)

text \<open>
  Against claim C9 as it was stated: a row that has a start time gets duration zero when
  it had been ended before, and when it was started less than a second ago; and two
  different reasons leave the same table.
\<close>
theorem EndSession_duration_counterexample:
  "SessionStartedAt ended_row = Some 1000000000000 \<and>
   map_option DurationSeconds
     (snd (EndSession (Map.empty(7 \<mapsto> ended_row)) 7 ''party_left'' 2000000000000 2000000000000) 7)
     = Some 0 \<and>
   map_option DurationSeconds
     (snd (EndSession (Map.empty(7 \<mapsto> ended_row\<lparr>SessionEndedAt := None\<rparr>)) 7 ''party_left''
            1000999999999 1000999999999) 7)
     = Some 0 \<and>
   EndSession (Map.empty(7 \<mapsto> ended_row)) 7 ''party_left'' 2000000000000 2000000000000 =
   EndSession (Map.empty(7 \<mapsto> ended_row)) 7 ''time_limit_reached'' 2000000000000 2000000000000"
  by (simp add: EndSession_def GetByBookingID_def VideoSessionRepository_EndSession_def
      update_row_def Sub_def whole_seconds_in_range signed_divide_int_def ended_row_def)

text \<open>
  A full buffer of size one, and three messages into a new buffer of size two.
\<close>
theorem MessageBuffer_Add_Flush_witness:
  "Add \<lparr>messages = [\<lparr>Type = ''offer'', Payload = ''a''\<rparr>], maxSize = 1\<rparr>
       \<lparr>Type = ''answer'', Payload = ''b''\<rparr>
     = (Some ErrMessageBufferFull, \<lparr>messages = [\<lparr>Type = ''offer'', Payload = ''a''\<rparr>], maxSize = 1\<rparr>) \<and>
   NewMessageBuffer 2 = Inr \<lparr>messages = [], maxSize = 2\<rparr> \<and>
   Flush (add_each \<lparr>messages = [], maxSize = 2\<rparr>
            [\<lparr>Type = ''offer'', Payload = ''a''\<rparr>, \<lparr>Type = ''answer'', Payload = ''b''\<rparr>,
             \<lparr>Type = ''ice_candidate'', Payload = ''c''\<rparr>])
     = Inr ([\<lparr>Type = ''offer'', Payload = ''a''\<rparr>, \<lparr>Type = ''answer'', Payload = ''b''\<rparr>],
            \<lparr>messages = [], maxSize = 2\<rparr>)"
  using MessageBuffer_Add_Flush [of "\<lparr>messages = [\<lparr>Type = ''offer'', Payload = ''a''\<rparr>], maxSize = 1\<rparr>"
      "\<lparr>Type = ''answer'', Payload = ''b''\<rparr>" 2 "\<lparr>messages = [], maxSize = 2\<rparr>"
      "[\<lparr>Type = ''offer'', Payload = ''a''\<rparr>, \<lparr>Type = ''answer'', Payload = ''b''\<rparr>,
        \<lparr>Type = ''ice_candidate'', Payload = ''c''\<rparr>]"]
  by (simp add: NewMessageBuffer_def)

text \<open>
  A queue with room, a full queue and an empty slot.
\<close>
lemma SendToRole_open_queue_example:
  "SendToRole example_session ''user'' (other_party_left 7) example_heap
     = Inr (enqueue 1 (other_party_left 7) example_heap) \<and>
   SendToRole (example_session\<lparr>User := Some 3\<rparr>) ''user'' (other_party_left 7) example_heap
     = Inr example_heap \<and>
   SendToRole (example_session\<lparr>User := None\<rparr>) ''user'' (other_party_left 7) example_heap
     = Inr example_heap"
  using SendToRole_open_queue [of "''user''" example_session "other_party_left 7" example_heap]
    SendToRole_open_queue [of "''user''" "example_session\<lparr>User := Some 3\<rparr>" "other_party_left 7" example_heap]
    SendToRole_open_queue [of "''user''" "example_session\<lparr>User := None\<rparr>" "other_party_left 7" example_heap]
  by (simp add: example_defs)

text \<open>
  Claim C5 fails on the code. The claim has the message appended whenever the slot of
  the role is occupied and the queue is not full, and never an error. On a slot whose
  occupant has been closed, the queue is not full and \<open>SendToRole\<close> panics with "send on
  closed channel": first on the example heap with the Client of the user closed, then
  in the world where the mentor has left, in which \<open>HandleClientLeft\<close> has closed the
  Client of the user and left it in its slot.
\<close>
theorem SendToRole_closed_queue_panics:
  "User example_session = Some 1 \<and>
   length (buf (Send ((example_heap(1 := shut (example_heap 1))) 1)))
     < cap (Send ((example_heap(1 := shut (example_heap 1))) 1)) \<and>
   SendToRole example_session ''user'' (other_party_left 7) (example_heap(1 := shut (example_heap 1)))
     = Inl SendOnClosedChannel \<and>
   map_option User (sessions mentor_left 7) = Some (Some 1) \<and>
   SendToRole (the (sessions mentor_left 7)) ''user''
       \<lparr>mtype = ''offer'', mpayload = OfferBody \<lparr>RTCOfferPayload.SDP = ''v=0''\<rparr>\<rparr> (clients mentor_left)
     = Inl SendOnClosedChannel"
  by (simp add: SendToRole_def send_if_present_def shut_def mentor_left_def both_joined_def
      run_defs example_defs)

text \<open>
  A second mentor connection replaces the first; the same Client added again is not closed.
\<close>
lemma AddClient_open_occupant_example:
  "AddClient 7 2 0 example_registry example_heap =
     Inr (example_session\<lparr>Mentor := Some 2\<rparr>,
          example_registry(7 \<mapsto> example_session\<lparr>Mentor := Some 2\<rparr>),
          example_heap(0 := shut (example_heap 0))) \<and>
   AddClient 7 0 0 example_registry example_heap =
     Inr (example_session\<lparr>Mentor := Some 0\<rparr>,
          example_registry(7 \<mapsto> example_session\<lparr>Mentor := Some 0\<rparr>), example_heap)"
  using AddClient_open_occupant [of "Some 0" example_heap 2 example_session
      "example_session\<lparr>Mentor := Some 2\<rparr>" example_registry 7 0]
    AddClient_open_occupant [of "Some 0" example_heap 0 example_session
      "example_session\<lparr>Mentor := Some 0\<rparr>" example_registry 7 0]
  by (simp add: example_defs)

text \<open>
  Claim C4 fails on the code. The claim has the old occupant closed and the new Client
  in the slot whenever the slot holds a Client with another \<open>ID\<close>. On a slot whose
  occupant was closed before, \<open>AddClient\<close> panics in \<open>Close\<close> with "close of closed
  channel" and the new Client does not take the slot: first on the example heap with
  the first mentor Client closed, then in the world where the mentor has left, in which
  \<open>HandleClientLeft\<close> has closed the Client of the user and left it in its slot, when
  a new connection of the user arrives.
\<close>
theorem AddClient_closed_occupant_panics:
  "Mentor example_session = Some 0 \<and>
   Client.ID ((example_heap(0 := shut (example_heap 0))) 0)
     \<noteq> Client.ID ((example_heap(0 := shut (example_heap 0))) 2) \<and>
   AddClient 7 2 0 example_registry (example_heap(0 := shut (example_heap 0)))
     = Inl CloseOfClosedChannel \<and>
   map_option User (sessions mentor_left 7) = Some (Some 1) \<and>
   AddClient 7 2 0 (sessions mentor_left)
       ((clients mentor_left)(2 := example_client 12 ''user'' ''bob''))
     = Inl CloseOfClosedChannel"
  by (simp add: shut_def mentor_left_def both_joined_def run_defs example_defs)

text \<open>
  Frames of the three types with an empty mandatory field.
\<close>
theorem empty_field_discarded_witness:
  "readPump_turn plain_decoders 0 example_session
      (Frame \<lparr>Type = ''ice_candidate'', Payload = ''''\<rparr>) example_heap = Inr (Continue, example_heap) \<and>
   readPump_turn plain_decoders 0 example_session
      (Frame \<lparr>Type = ''offer'', Payload = ''''\<rparr>) example_heap = Inr (Continue, example_heap) \<and>
   readPump_turn plain_decoders 0 example_session
      (Frame \<lparr>Type = ''answer'', Payload = ''''\<rparr>) example_heap = Inr (Continue, example_heap)"
  using empty_field_discarded [where msg = "\<lparr>Type = ''ice_candidate'', Payload = ''''\<rparr>"
      and dec = plain_decoders and client = 0 and session = example_session and h = example_heap
      and i = "\<lparr>Candidate = '''', SDPMid = None, SDPMLineIndex = None\<rparr>"]
    empty_field_discarded [where msg = "\<lparr>Type = ''offer'', Payload = ''''\<rparr>"
      and dec = plain_decoders and client = 0 and session = example_session and h = example_heap
      and p = "\<lparr>RTCOfferPayload.SDP = ''''\<rparr>"]
    empty_field_discarded [where msg = "\<lparr>Type = ''answer'', Payload = ''''\<rparr>"
      and dec = plain_decoders and client = 0 and session = example_session and h = example_heap
      and q = "\<lparr>RTCAnswerPayload.SDP = ''''\<rparr>"]
  by (simp add: plain_decoders_def)



text \<open>
  Two handlers that overlap: both have tested the flag of the Client at address 1 and
  found it unset before either sends, and both notices reach the queue of that Client.
\<close>
lemma overlapping_handlers_notify_twice:
  "\<not> HasSessionReadySent (ConnectionState (example_heap 1)) \<and>
   buf (Send (projr (send_ready 1 (session_ready ''alice'' ''user'')
                      (projr (send_ready 1 (session_ready ''alice'' ''user'') example_heap))) 1))
     = [session_ready ''alice'' ''user'', session_ready ''alice'' ''user'']"
  by (simp add: run_defs example_defs)

text \<open>
  Two bookings, a replaced mentor, and a Session that is emptied and removed.
\<close>
theorem registry_occupancy_witness:
  "\<not> isl (hub_run 0 [Add_op 7 0, Add_op 7 1, Add_op 7 2, Remove_op 7 ''mentor'',
                      Remove_op 7 ''user'', Add_op 8 1] NewHub example_heap) \<and>
   occupied (fst (projr (hub_run 0 [Add_op 7 0, Add_op 7 1, Add_op 7 2, Remove_op 7 ''mentor'',
                      Remove_op 7 ''user'', Add_op 8 1] NewHub example_heap)))"
proof -
  let ?r = "hub_run 0 [Add_op 7 0, Add_op 7 1, Add_op 7 2, Remove_op 7 ''mentor'',
                      Remove_op 7 ''user'', Add_op 8 1] NewHub example_heap"
  have 1: "\<not> isl ?r"
    by (simp add: AddClient_def close_duplicate_def Client_Close_def chan_close_def
        RemoveClient_def NewSession_def NewHub_def example_defs Let_def)
  then have "?r = Inr (fst (projr ?r), snd (projr ?r))" by simp
  from registry_occupancy [OF this] 1 show ?thesis by simp
qed

text \<open>
  The user bob joins the Session in which the mentor alice waits.
\<close>
theorem session_ready_contents_witness:
  "\<exists>h'. sendSessionReady example_session 1 bob example_heap = Inr h' \<and>
        h' 0 = notified (example_heap 0) (session_ready ''bob'' ''mentor'') \<and>
        h' 1 = notified (example_heap 1) (session_ready ''alice'' ''user'')"
proof -
  have names: "Client.Username (example_heap 1) = ''bob''" "Client.Username (example_heap 0) = ''alice''"
    by (simp_all add: example_defs)
  have "\<exists>h'. sendSessionReady example_session 1 bob example_heap = Inr h' \<and>
          h' 0 = notified (example_heap 0) (session_ready (Client.Username (example_heap 1)) ''mentor'') \<and>
          h' 1 = notified (example_heap 1) (session_ready (Client.Username (example_heap 0)) ''user'') \<and>
          (\<forall>c. c \<noteq> 0 \<and> c \<noteq> 1 \<longrightarrow> h' c = example_heap c)"
    by (rule session_ready_contents [where session = example_session and m = 0 and u = 1
          and newClient = 1 and h = example_heap and auth = bob])
       (simp_all add: example_defs)
  then show ?thesis unfolding names by blast
qed

text \<open>
  Against claim C1 as it was stated: after the mentor alice and the user bob have joined,
  the notice in the mentor's queue names bob with role \<open>"mentor"\<close>, not \<open>"user"\<close>.
\<close>
theorem session_ready_contents_counterexample:
  "Client.Role (clients both_joined 0) = ''mentor'' \<and>
   Client.Username (clients both_joined 1) = ''bob'' \<and>
   Client.Role (clients both_joined 1) = ''user'' \<and>
   buf (Send (clients both_joined 0)) = [session_ready ''bob'' ''mentor''] \<and>
   buf (Send (clients both_joined 1)) = [session_ready ''alice'' ''user''] \<and>
   session_ready ''bob'' ''mentor'' \<noteq> session_ready ''bob'' ''user''"
  by (simp add: both_joined_def run_defs example_defs)

text \<open>
  Against claim C2 as it was stated: the role \<open>"mentor"\<close> of one Session is notified
  twice, once through each of its two connections (addresses 0 and 2): when the second
  connection preempts the first, and when it joins after the first has left, the
  Session staying in the registry throughout.
\<close>
theorem session_ready_once_per_client_counterexample:
  "Client.Role (clients (projr (run plain_decoders 0 [Connect alice 12 2] both_joined)) 0) = ''mentor'' \<and>
   Client.Role (clients (projr (run plain_decoders 0 [Connect alice 12 2] both_joined)) 2) = ''mentor'' \<and>
   buf (Send (clients (projr (run plain_decoders 0 [Connect alice 12 2] both_joined)) 0))
     = [session_ready ''bob'' ''mentor''] \<and>
   buf (Send (clients (projr (run plain_decoders 0 [Connect alice 12 2] both_joined)) 2))
     = [session_ready ''bob'' ''mentor''] \<and>
   sessions both_joined 7 \<noteq> None \<and>
   sessions mentor_left 7 \<noteq> None \<and>
   buf (Send (clients (projr (run plain_decoders 0 [Connect alice 12 2] mentor_left)) 0))
     = [session_ready ''bob'' ''mentor''] \<and>
   buf (Send (clients (projr (run plain_decoders 0 [Connect alice 12 2] mentor_left)) 2))
     = [session_ready ''bob'' ''mentor'']"
  by (simp add: mentor_left_def both_joined_def run_defs example_defs)

text \<open>
  The notified user keeps one notice when a second mentor connection arrives.
\<close>
theorem session_ready_once_per_client_witness:
  "HasSessionReadySent (ConnectionState (clients both_joined 1)) \<and>
   1 \<notin> allocated [Connect alice 12 2] \<and>
   \<not> isl (run plain_decoders 0 [Connect alice 12 2] both_joined) \<and>
   HasSessionReadySent (ConnectionState (clients (projr (run plain_decoders 0 [Connect alice 12 2] both_joined)) 1)) \<and>
   ready_count (clients (projr (run plain_decoders 0 [Connect alice 12 2] both_joined)) 1) = 1 \<and>
   \<not> isl (sendSessionReady example_session 1 bob example_heap) \<and>
   (\<exists>m. mtype m = ''session_ready'' \<and>
        projr (sendSessionReady example_session 1 bob example_heap) 0 = notified (example_heap 0) m)"
proof -
  let ?r = "run plain_decoders 0 [Connect alice 12 2] both_joined"
  let ?s = "sendSessionReady example_session 1 bob example_heap"
  have f: "HasSessionReadySent (ConnectionState (clients both_joined 1))"
    and c: "ready_count (clients both_joined 1) = 1"
    by (simp_all add: both_joined_def run_defs example_defs ready_count_def)
  have r: "\<not> isl ?r" by (simp add: both_joined_def run_defs example_defs)
  then have r': "?r = Inr (projr ?r)" by simp
  have s: "\<not> isl ?s" by (simp add: run_defs example_defs)
  then have s': "?s = Inr (projr ?s)" by simp
  have n: "projr ?s 0 \<noteq> example_heap 0" by (simp add: run_defs example_defs)
  from session_ready_once_per_client
    [where session = example_session and newClient = 1 and auth = bob and h = example_heap
      and h' = "projr ?s" and dec = plain_decoders and now = 0 and sts = "[Connect alice 12 2]"
      and w = both_joined and w' = "projr ?r" and c = 1]
    f c r r' s s' n
  show ?thesis by auto
qed

text \<open>Neither \<open>Close\<close> can be called twice: the second call panics.\<close>

lemma Client_Close_twice:
  "Client_Close c h = Inr h' \<Longrightarrow> Client_Close c h' = Inl CloseOfClosedChannel"
  by (auto simp: Client_Close_def chan_close_def split: if_splits)

lemma Session_Close_twice:
  "Session_Close s h = Inr (s', h') \<Longrightarrow> Session_Close s' h' = Inl CloseOfClosedChannel"
  by (auto simp: Session_Close_def chan_close_def split: if_splits sum.splits)

text \<open>
  Claim C3 fails on the code. The mentor and the user connect; the \<open>readPump\<close> of the
  mentor returns, and \<open>HandleClientLeft\<close> closes the Client of the user, which stays in
  its slot until the user's own \<open>readPump\<close> has cleaned up; before that, a new connection
  of the user is accepted, and \<open>AddClient\<close> closes the same Client a second time: the
  run ends in the panic "close of closed channel".
\<close>
theorem double_close_panics:
  "run plain_decoders 0
      [Connect alice 10 0, Connect bob 11 1, Disconnect 0, Connect bob 12 2] empty_world
     = Inl CloseOfClosedChannel"
  by (simp add: run_defs example_defs)

end
